theory Spec2Isabelle
  imports Main "HOL-Library.Sublist" "HOL-Library.Multiset"
begin

section \<open>The prospect table\<close>

text \<open>
  \<^verbatim>\<open>prospect_finder.py\<close> keeps its prospects in a pandas \<^verbatim>\<open>DataFrame\<close>. The part of a
  frame the methods of \<^verbatim>\<open>ProspectFinder\<close> use is modelled here: the column labels in
  their order, and the rows in their order. A cell is missing (\<^verbatim>\<open>NaN\<close>/\<^verbatim>\<open>None\<close>), a
  string (the fields the two source adapters produce) or an integer (the \<^verbatim>\<open>score\<close>
  column). A row is read by field name and reads \<open>NA\<close> at every field that is not a
  column of its frame: that is the value \<^verbatim>\<open>pd.concat\<close> fills in when frames with
  different columns are put together. The row labels are not modelled: every method
  either ignores them or resets them (\<^verbatim>\<open>ignore_index=True\<close>).

  Numeric dtypes are not modelled: the model is of frames whose input columns have
  dtype \<^verbatim>\<open>object\<close> (strings and missing values), as the adapters build them.
\<close>

datatype cell = NA | Str string | Num int

type_synonym row = "string \<Rightarrow> cell"

record dataframe =
  columns :: "string list"
  rows :: "row list"

text \<open>\<^verbatim>\<open>pd.DataFrame()\<close>: no column, no row.\<close>

definition DataFrame :: dataframe where
  "DataFrame = \<lparr>columns = [], rows = []\<rparr>"

text \<open>\<^verbatim>\<open>df.empty\<close>: true when either axis has length 0.\<close>

definition df_empty :: "dataframe \<Rightarrow> bool" where
  "df_empty df \<longleftrightarrow> columns df = [] \<or> rows df = []"

text \<open>\<^verbatim>\<open>len(df)\<close>: the number of rows.\<close>

definition len :: "dataframe \<Rightarrow> nat" where
  "len df = length (rows df)"

text \<open>\<^verbatim>\<open>df[c]\<close> for a column that exists: the series of that column's cells.\<close>

definition series :: "dataframe \<Rightarrow> string \<Rightarrow> cell list" where
  "series df c = map (\<lambda>r. r c) (rows df)"

text \<open>\<^verbatim>\<open>df[c] = v\<close> with a scalar: the column is overwritten where it stands, or added
  as the last column.\<close>

definition set_column :: "string \<Rightarrow> cell \<Rightarrow> dataframe \<Rightarrow> dataframe" where
  "set_column c v df =
     df\<lparr>columns := (if c \<in> set (columns df) then columns df else columns df @ [c]),
        rows := map (\<lambda>r. r(c := v)) (rows df)\<rparr>"

text \<open>\<^verbatim>\<open>df.loc[mask, c] = v\<close>: the rows whose mask entry is true get \<open>v\<close> in column
  \<open>c\<close>. The mask is a boolean series computed from the frame, so it has one entry
  per row.\<close>

definition loc_assign :: "bool list \<Rightarrow> string \<Rightarrow> cell \<Rightarrow> dataframe \<Rightarrow> dataframe" where
  "loc_assign msk c v df =
     df\<lparr>rows := map (\<lambda>(m, r). if m then r(c := v) else r) (zip msk (rows df))\<rparr>"

text \<open>\<^verbatim>\<open>df.loc[mask, c] += k\<close> on an integer column. (A missing cell stays missing;
  the only column the code adds to is \<^verbatim>\<open>score\<close>, freshly set to 0.)\<close>

fun cell_add :: "cell \<Rightarrow> int \<Rightarrow> cell" where
  "cell_add (Num n) k = Num (n + k)"
| "cell_add c k = c"

definition loc_add :: "bool list \<Rightarrow> string \<Rightarrow> int \<Rightarrow> dataframe \<Rightarrow> dataframe" where
  "loc_add msk c k df =
     df\<lparr>rows := map (\<lambda>(m, r). if m then r(c := cell_add (r c) k) else r) (zip msk (rows df))\<rparr>"

subsection \<open>Elementwise series operations\<close>

text \<open>\<^verbatim>\<open>Series.notna()\<close>.\<close>

fun notna :: "cell \<Rightarrow> bool" where
  "notna NA = False"
| "notna c = True"

text \<open>\<^verbatim>\<open>str.lower()\<close> on the ASCII letters. Strings are byte strings here (UTF-8);
  bytes above 127 are left alone. Every keyword the code looks for is ASCII, and no
  byte of a multi-byte UTF-8 sequence is an ASCII byte, so the keyword matches are the
  ones Python finds.\<close>

definition lower_char :: "char \<Rightarrow> char" where
  "lower_char c =
     (let n = (of_char c :: nat) in if 65 \<le> n \<and> n \<le> 90 then char_of (n + 32) else c)"

definition lower :: "string \<Rightarrow> string" where
  "lower s = map lower_char s"

text \<open>\<^verbatim>\<open>Series.str.lower()\<close>: an element that is not a string becomes missing.\<close>

fun str_lower :: "cell \<Rightarrow> cell" where
  "str_lower (Str s) = Str (lower s)"
| "str_lower c = NA"

text \<open>\<^verbatim>\<open>Series.fillna(v)\<close>.\<close>

fun fillna :: "cell \<Rightarrow> cell \<Rightarrow> cell" where
  "fillna v NA = v"
| "fillna v c = c"

text \<open>\<^verbatim>\<open>Series.str.contains('|'.join(alts), na=na)\<close>: the pattern is a regular
  expression, searched anywhere in the string. The alternatives the code joins are
  plain words (letters and spaces), so the expression matches exactly when one of them
  is a substring. An element that is not a string gives \<open>na\<close>.\<close>

fun str_contains :: "string list \<Rightarrow> bool \<Rightarrow> cell \<Rightarrow> bool" where
  "str_contains alts na (Str s) = list_ex (\<lambda>k. sublist k s) alts"
| "str_contains alts na c = na"

section \<open>The classifier\<close>

definition dealer_keywords :: "string list" where
  "dealer_keywords = [''auto'', ''car'', ''dealer'', ''motors'', ''automotive'']"

definition buyer_keywords :: "string list" where
  "buyer_keywords = [''buyer'', ''cash for cars'', ''we buy'', ''wholesale'']"

definition shop_keywords :: "string list" where
  "shop_keywords = [''body shop'', ''collision'', ''repair'']"

text \<open>\<^verbatim>\<open>categorize_prospects(df)\<close>. The three masks are computed from
  \<^verbatim>\<open>name_lower\<close>, a series taken from the frame before any label is written. After
  \<^verbatim>\<open>fillna('')\<close> every element of \<^verbatim>\<open>name_lower\<close> is a string, so the \<open>na\<close> argument
  of \<open>str_contains\<close> is never consulted.\<close>

definition categorize_prospects :: "dataframe \<Rightarrow> dataframe" where
  "categorize_prospects df0 =
     (let df = set_column ''prospect_type'' (Str ''Unknown'') df0 in
      if ''name'' \<in> set (columns df) then
        let name_lower = map (fillna (Str [])) (map str_lower (series df ''name''));
            dealer_mask = map (str_contains dealer_keywords False) name_lower;
            df = loc_assign dealer_mask ''prospect_type'' (Str ''Auto Dealer'') df;
            buyer_mask = map (str_contains buyer_keywords False) name_lower;
            df = loc_assign buyer_mask ''prospect_type'' (Str ''Vehicle Buyer'') df;
            shop_mask = map (str_contains shop_keywords False) name_lower;
            df = loc_assign shop_mask ''prospect_type'' (Str ''Body Shop'') df
        in df
      else df)"

text \<open>The classifier as the specification words it. The name of a record is its
  \<^verbatim>\<open>name\<close> field (missing when the frame has no such column). There are three rules,
  in a fixed order, each a label with its keywords. A keyword matches a name when it
  occurs in it as a substring, letter case ignored: both are case-folded, by a table
  of the 26 letters, and compared. A rule matches when one of its keywords does. The
  label is \<^verbatim>\<open>Unknown\<close> when no rule matches, and otherwise the label of the last rule that
  matches.\<close>

definition name_of :: "dataframe \<Rightarrow> row \<Rightarrow> cell" where
  "name_of df r = (if ''name'' \<in> set (columns df) then r ''name'' else NA)"

definition fold_case :: "char \<Rightarrow> char" where
  "fold_case c =
     (case map_of (zip ''ABCDEFGHIJKLMNOPQRSTUVWXYZ'' ''abcdefghijklmnopqrstuvwxyz'') c of
        Some l \<Rightarrow> l
      | None \<Rightarrow> c)"

definition occurs_in :: "string \<Rightarrow> string \<Rightarrow> bool" where
  "occurs_in s k \<longleftrightarrow> sublist (map fold_case k) (map fold_case s)"

definition rules :: "(string \<times> string list) list" where
  "rules =
     [(''Auto Dealer'', [''auto'', ''car'', ''dealer'', ''motors'', ''automotive'']),
      (''Vehicle Buyer'', [''buyer'', ''cash for cars'', ''we buy'', ''wholesale'']),
      (''Body Shop'', [''body shop'', ''collision'', ''repair''])]"

definition matches :: "cell \<Rightarrow> string \<times> string list \<Rightarrow> bool" where
  "matches c rule = (case c of Str s \<Rightarrow> list_ex (occurs_in s) (snd rule) | _ \<Rightarrow> False)"

definition spec_prospect_type :: "cell \<Rightarrow> string" where
  "spec_prospect_type c =
     (let matching = filter (matches c) rules
      in if matching = [] then ''Unknown'' else fst (last matching))"

section \<open>The scorer\<close>

text \<open>\<^verbatim>\<open>df.sort_values('score', ascending=False)\<close>. The call names no \<^verbatim>\<open>kind\<close>, so
  pandas sorts with its default, \<^verbatim>\<open>kind='quicksort'\<close>: it hands the key column to
  numpy's \<^verbatim>\<open>argsort\<close> and takes the rows in the order of the indices that come back.
  The sorting algorithm is numpy's, not this repository's, and differs between numpy
  builds; it is the parameter \<open>argsort\<close> here. What pandas does around it for a
  descending sort is written out: the keys are reversed, sorted ascending, and the
  resulting order is reversed again.\<close>

definition nargsort_desc :: "(int list \<Rightarrow> nat list) \<Rightarrow> int list \<Rightarrow> nat list" where
  "nargsort_desc argsort items =
     (let non_nans = rev items;
          non_nan_idx = rev [0..<length items];
          indexer = map (\<lambda>j. non_nan_idx ! j) (argsort non_nans)
      in rev indexer)"

text \<open>The integer a key cell holds. (The \<^verbatim>\<open>score\<close> column holds integers only.)\<close>

fun int_of :: "cell \<Rightarrow> int" where
  "int_of (Num n) = n"
| "int_of c = 0"

definition sort_values_desc :: "(int list \<Rightarrow> nat list) \<Rightarrow> string \<Rightarrow> dataframe \<Rightarrow> dataframe" where
  "sort_values_desc argsort col df =
     (let indexer = nargsort_desc argsort (map int_of (series df col))
      in df\<lparr>rows := map (\<lambda>i. rows df ! i) indexer\<rparr>)"

text \<open>\<^verbatim>\<open>score_prospects(df)\<close>.\<close>

definition score_prospects :: "(int list \<Rightarrow> nat list) \<Rightarrow> dataframe \<Rightarrow> dataframe" where
  "score_prospects argsort df0 =
     (let df = set_column ''score'' (Num 0) df0;
          df = (if ''phone'' \<in> set (columns df)
                then loc_add (map notna (series df ''phone'')) ''score'' 10 df else df);
          df = (if ''website'' \<in> set (columns df)
                then loc_add (map notna (series df ''website'')) ''score'' 5 df else df);
          df = (if ''address'' \<in> set (columns df)
                then loc_add (map notna (series df ''address'')) ''score'' 5 df else df);
          df = (if ''source'' \<in> set (columns df)
                then loc_add (map (str_contains [''DMV''] False) (series df ''source''))
                       ''score'' 20 df
                else df)
      in sort_values_desc argsort ''score'' df)"

text \<open>What numpy promises of \<^verbatim>\<open>argsort\<close> whatever the kind: the result is a permutation
  of the positions, and reading the keys in that order gives them ascending.\<close>

definition sorting :: "(int list \<Rightarrow> nat list) \<Rightarrow> bool" where
  "sorting argsort \<longleftrightarrow>
     (\<forall>xs. mset (argsort xs) = mset [0..<length xs] \<and>
           sorted (map (\<lambda>i. xs ! i) (argsort xs)))"

text \<open>What only the stable kinds (\<^verbatim>\<open>'stable'\<close>, \<^verbatim>\<open>'mergesort'\<close>) promise in addition:
  the positions of equal keys come out in increasing order.\<close>

definition stable :: "(int list \<Rightarrow> nat list) \<Rightarrow> bool" where
  "stable argsort \<longleftrightarrow>
     (\<forall>xs k. filter (\<lambda>i. xs ! i = k) (argsort xs) = filter (\<lambda>i. xs ! i = k) [0..<length xs])"

text \<open>A sorting algorithm that is stable, to run the scorer with: insertion sort on the
  keys paired with their positions.\<close>

definition insertion_argsort :: "int list \<Rightarrow> nat list" where
  "insertion_argsort xs = map snd (sort_key fst (zip xs [0..<length xs]))"

subsection \<open>The quicksort of numpy\<close>

text \<open>What \<^verbatim>\<open>argsort(kind='quicksort')\<close> runs on an integer array, where numpy does not
  dispatch to a vectorised sort: \<^verbatim>\<open>aquicksort_\<close> of \<^verbatim>\<open>npysort/quicksort.cpp\<close>. It sorts
  the array \<^verbatim>\<open>tosort\<close> of positions, initially \<open>0, 1, \<dots>\<close>, by the keys \<^verbatim>\<open>v\<close> they point
  to, and is an introsort: it partitions around the median of three while a part has
  more than 17 elements, pushing the larger part on a stack; sorts a part of at most 17
  elements by insertion; and falls back on heapsort when the depth limit, twice the
  position of the highest bit of the length, is used up. Pointers into \<^verbatim>\<open>tosort\<close> are
  positions in the list \<open>t\<close> here. A loop of the C code is a function that returns
  \<open>None\<close> if the loop does not end.\<close>

definition INTP_SWAP :: "nat \<Rightarrow> nat \<Rightarrow> nat list \<Rightarrow> nat list" where
  "INTP_SWAP a b t = t[a := t ! b, b := t ! a]"

text \<open>\<^verbatim>\<open>npy_get_msb\<close>: \<^verbatim>\<open>while (unum >>= 1) depth_limit++\<close>.\<close>

fun npy_get_msb :: "nat \<Rightarrow> int" where
  "npy_get_msb unum = (if unum div 2 = 0 then 0 else 1 + npy_get_msb (unum div 2))"

text \<open>\<^verbatim>\<open>do { ++pi; } while (v[*pi] < vp)\<close> and \<^verbatim>\<open>do { --pj; } while (vp < v[*pj])\<close>.\<close>

partial_function (option) scan_up :: "int list \<Rightarrow> nat list \<Rightarrow> int \<Rightarrow> nat \<Rightarrow> nat option" where
  "scan_up v t vp pi =
     (if v ! (t ! (pi + 1)) < vp then scan_up v t vp (pi + 1) else Some (pi + 1))"

partial_function (option) scan_down :: "int list \<Rightarrow> nat list \<Rightarrow> int \<Rightarrow> nat \<Rightarrow> nat option" where
  "scan_down v t vp pj =
     (if vp < v ! (t ! (pj - 1)) then scan_down v t vp (pj - 1) else Some (pj - 1))"

text \<open>The loop \<^verbatim>\<open>for (;;)\<close> of the partition: both scans, then \<^verbatim>\<open>break\<close> when they have
  met, and a swap otherwise.\<close>

partial_function (option) partition_loop ::
  "int list \<Rightarrow> int \<Rightarrow> nat list \<Rightarrow> nat \<Rightarrow> nat \<Rightarrow> (nat list \<times> nat) option" where
  "partition_loop v vp t pi pj =
     Option.bind (scan_up v t vp pi) (\<lambda>pi.
     Option.bind (scan_down v t vp pj) (\<lambda>pj.
       if pi \<ge> pj then Some (t, pi)
       else partition_loop v vp (INTP_SWAP pi pj t) pi pj))"

text \<open>One partition of the part from \<open>pl\<close> to \<open>pr\<close>: the median of three is put in the
  middle, then parked at \<open>pr - 1\<close>; after the loop it is put at \<open>pi\<close>, which is
  returned with the array.\<close>

definition partition :: "int list \<Rightarrow> nat list \<Rightarrow> nat \<Rightarrow> nat \<Rightarrow> (nat list \<times> nat) option" where
  "partition v t pl pr =
     (let pm = pl + (pr - pl) div 2;
          t = (if v ! (t ! pm) < v ! (t ! pl) then INTP_SWAP pm pl t else t);
          t = (if v ! (t ! pr) < v ! (t ! pm) then INTP_SWAP pr pm t else t);
          t = (if v ! (t ! pm) < v ! (t ! pl) then INTP_SWAP pm pl t else t);
          vp = v ! (t ! pm);
          t = INTP_SWAP pm (pr - 1) t
      in Option.bind (partition_loop v vp t pl (pr - 1))
           (\<lambda>(t, pi). Some (INTP_SWAP pi (pr - 1) t, pi)))"

text \<open>\<^verbatim>\<open>while ((pr - pl) > SMALL_QUICKSORT)\<close>, with \<^verbatim>\<open>SMALL_QUICKSORT\<close> 16: partition, push the
  larger part with the depth left, go on with the smaller.\<close>

type_synonym stack = "(nat \<times> nat \<times> int) list"

partial_function (option) partition_while ::
  "int list \<Rightarrow> nat list \<Rightarrow> nat \<Rightarrow> nat \<Rightarrow> stack \<Rightarrow> int
     \<Rightarrow> (nat list \<times> nat \<times> nat \<times> stack \<times> int) option" where
  "partition_while v t pl pr stack cdepth =
     (if pr - pl > 16 then
        Option.bind (partition v t pl pr) (\<lambda>r.
          if snd r - pl < pr - snd r
          then partition_while v (fst r) pl (snd r - 1)
                 ((snd r + 1, pr, cdepth - 1) # stack) (cdepth - 1)
          else partition_while v (fst r) (snd r + 1) pr
                 ((pl, snd r - 1, cdepth - 1) # stack) (cdepth - 1))
      else Some (t, pl, pr, stack, cdepth))"

text \<open>The insertion sort: \<^verbatim>\<open>while (pj > pl && vp < v[*pk]) { *pj-- = *pk--; }\<close> with
  \<open>pk = pj - 1\<close>, inside \<^verbatim>\<open>for (pi = pl + 1; pi <= pr; ++pi)\<close>.\<close>

fun insert_back :: "int list \<Rightarrow> int \<Rightarrow> nat \<Rightarrow> nat list \<Rightarrow> nat \<Rightarrow> nat list \<times> nat" where
  "insert_back v vp pl t pj =
     (if pj > pl \<and> vp < v ! (t ! (pj - 1))
      then insert_back v vp pl (t[pj := t ! (pj - 1)]) (pj - 1)
      else (t, pj))"

function insertion_sort :: "int list \<Rightarrow> nat \<Rightarrow> nat \<Rightarrow> nat list \<Rightarrow> nat \<Rightarrow> nat list" where
  "insertion_sort v pl pr t pi =
     (if pi \<le> pr then
        let vi = t ! pi;
            vp = v ! vi;
            (t, pj) = insert_back v vp pl t pi
        in insertion_sort v pl pr (t[pj := vi]) (pi + 1)
      else t)"
  by pat_completeness auto
termination
  by (relation "measure (\<lambda>(v, pl, pr, t, pi). Suc pr - pi)") auto

text \<open>\<^verbatim>\<open>aheapsort_\<close> of \<^verbatim>\<open>npysort/heapsort.cpp\<close> on the \<open>n\<close> positions from \<open>tosort\<close>. The C
  code counts them from 1 (\<^verbatim>\<open>a = tosort - 1\<close>): \<^verbatim>\<open>a[k]\<close> is \<open>t ! (tosort + k - 1)\<close>.\<close>

definition child :: "int list \<Rightarrow> nat \<Rightarrow> nat \<Rightarrow> nat list \<Rightarrow> nat \<Rightarrow> nat" where
  "child v tosort n t j =
     (if j < n \<and> v ! (t ! (tosort + j - 1)) < v ! (t ! (tosort + (j + 1) - 1)) then j + 1
      else j)"

partial_function (option) sift_down ::
  "int list \<Rightarrow> nat \<Rightarrow> nat \<Rightarrow> nat \<Rightarrow> nat list \<Rightarrow> nat \<Rightarrow> nat \<Rightarrow> nat list option" where
  "sift_down v tosort tmp n t i j =
     (if j \<le> n then
        (let j = child v tosort n t j in
         if v ! tmp < v ! (t ! (tosort + j - 1))
         then sift_down v tosort tmp n (t[tosort + i - 1 := t ! (tosort + j - 1)]) j (j + j)
         else Some (t[tosort + i - 1 := tmp]))
      else Some (t[tosort + i - 1 := tmp]))"

partial_function (option) build_heap ::
  "int list \<Rightarrow> nat \<Rightarrow> nat \<Rightarrow> nat list \<Rightarrow> nat \<Rightarrow> nat list option" where
  "build_heap v tosort n t l =
     (if l > 0
      then Option.bind (sift_down v tosort (t ! (tosort + l - 1)) n t l (2 * l))
             (\<lambda>t. build_heap v tosort n t (l - 1))
      else Some t)"

partial_function (option) pop_heap ::
  "int list \<Rightarrow> nat \<Rightarrow> nat list \<Rightarrow> nat \<Rightarrow> nat list option" where
  "pop_heap v tosort t n =
     (if n > 1
      then Option.bind
             (sift_down v tosort (t ! (tosort + n - 1)) (n - 1)
                (t[tosort + n - 1 := t ! tosort]) 1 2)
             (\<lambda>t. pop_heap v tosort t (n - 1))
      else Some t)"

definition aheapsort :: "int list \<Rightarrow> nat list \<Rightarrow> nat \<Rightarrow> nat \<Rightarrow> nat list option" where
  "aheapsort v t tosort n =
     Option.bind (build_heap v tosort n t (n div 2)) (\<lambda>t. pop_heap v tosort t n)"

text \<open>The loop \<^verbatim>\<open>while (1)\<close> of \<^verbatim>\<open>aquicksort_\<close>: heapsort of the part when the depth is used
  up, and otherwise the partitions and the insertion sort; then the next part is popped
  from the stack, and the loop ends when there is none.\<close>

partial_function (option) aquicksort_loop ::
  "int list \<Rightarrow> nat list \<Rightarrow> nat \<Rightarrow> nat \<Rightarrow> stack \<Rightarrow> int \<Rightarrow> nat list option" where
  "aquicksort_loop v t pl pr stack cdepth =
     Option.bind
       (if cdepth < 0
        then Option.bind (aheapsort v t pl (pr - pl + 1)) (\<lambda>t. Some (t, stack))
        else Option.bind (partition_while v t pl pr stack cdepth)
               (\<lambda>(t, pl, pr, stack, cdepth). Some (insertion_sort v pl pr t (pl + 1), stack)))
       (\<lambda>r. if snd r = [] then Some (fst r)
             else aquicksort_loop v (fst r) (fst (hd (snd r))) (fst (snd (hd (snd r))))
                    (tl (snd r)) (snd (snd (hd (snd r)))))"

definition aquicksort :: "int list \<Rightarrow> nat list option" where
  "aquicksort v =
     (let num = length v
      in aquicksort_loop v [0..<num] 0 (num - 1) [] (npy_get_msb num * 2))"

declare scan_up.simps [code]
declare scan_down.simps [code]
declare partition_loop.simps [code]
declare partition_while.simps [code]
declare sift_down.simps [code]
declare build_heap.simps [code]
declare pop_heap.simps [code]
declare aquicksort_loop.simps [code]

text \<open>The positions \<^verbatim>\<open>argsort\<close> returns.\<close>

definition quicksort_argsort :: "int list \<Rightarrow> nat list" where
  "quicksort_argsort v = (case aquicksort v of Some t \<Rightarrow> t | None \<Rightarrow> [])"

text \<open>The score as the specification words it: a field is present in a record when
  the frame has the column and the record's value is not missing; the contributions
  are +10 for \<^verbatim>\<open>phone\<close>, +5 for \<^verbatim>\<open>website\<close>, +5 for \<^verbatim>\<open>address\<close>, and +20 when
  \<^verbatim>\<open>source\<close> is a string with the substring \<^verbatim>\<open>DMV\<close>.\<close>

definition present :: "dataframe \<Rightarrow> row \<Rightarrow> string \<Rightarrow> bool" where
  "present df r c \<longleftrightarrow> c \<in> set (columns df) \<and> r c \<noteq> NA"

definition source_has_DMV :: "dataframe \<Rightarrow> row \<Rightarrow> bool" where
  "source_has_DMV df r \<longleftrightarrow>
     ''source'' \<in> set (columns df) \<and> (case r ''source'' of Str s \<Rightarrow> sublist ''DMV'' s | _ \<Rightarrow> False)"

definition spec_score :: "dataframe \<Rightarrow> row \<Rightarrow> int" where
  "spec_score df r =
     (if present df r ''phone'' then 10 else 0) +
     (if present df r ''website'' then 5 else 0) +
     (if present df r ''address'' then 5 else 0) +
     (if source_has_DMV df r then 20 else 0)"

section \<open>The finder: store, log and files\<close>

text \<open>A \<^verbatim>\<open>ProspectFinder\<close> has an output directory and the prospect store. Its methods
  have two effects beyond the store: records sent to the module's logger, and files
  written under the output directory. Both are kept in the state, in the order they
  happen.\<close>

datatype level = INFO | WARNING

datatype file_format = CSV | XLSX | JSON

record finder =
  output_directory :: string
  prospects :: dataframe
  logged :: "(level \<times> string) list"
  written :: "(string \<times> file_format \<times> dataframe) list"

text \<open>\<^verbatim>\<open>ProspectFinder(output_directory)\<close>: the store starts as \<^verbatim>\<open>pd.DataFrame()\<close>.\<close>

definition init :: "string \<Rightarrow> finder" where
  "init dir = \<lparr>output_directory = dir, prospects = DataFrame, logged = [], written = []\<rparr>"

definition logger :: "level \<Rightarrow> string \<Rightarrow> finder \<Rightarrow> finder" where
  "logger lvl msg self = self\<lparr>logged := logged self @ [(lvl, msg)]\<rparr>"

text \<open>The decimal digits of a number, as an f-string prints \<^verbatim>\<open>{len(df)}\<close>.\<close>

fun str_nat :: "nat \<Rightarrow> string" where
  "str_nat n =
     (if n < 10 then [char_of (48 + n)]
      else str_nat (n div 10) @ [char_of (48 + n mod 10)])"

subsection \<open>Merging\<close>

text \<open>\<^verbatim>\<open>pd.concat([a, b], ignore_index=True)\<close>: the columns of \<open>a\<close>, then those of
  \<open>b\<close> that \<open>a\<close> does not have; the rows of \<open>a\<close>, then the rows of \<open>b\<close>.\<close>

definition pd_concat :: "dataframe \<Rightarrow> dataframe \<Rightarrow> dataframe" where
  "pd_concat a b =
     \<lparr>columns = columns a @ filter (\<lambda>c. c \<notin> set (columns a)) (columns b),
      rows = rows a @ rows b\<rparr>"

definition add_yellowpages_data :: "dataframe \<Rightarrow> finder \<Rightarrow> finder" where
  "add_yellowpages_data df self =
     (if df_empty df then logger WARNING ''No Yellow Pages data to add'' self
      else
        let self = logger INFO (''Adding '' @ str_nat (len df) @ '' Yellow Pages records'') self
        in self\<lparr>prospects := pd_concat (prospects self) df\<rparr>)"

definition add_dmv_data :: "dataframe \<Rightarrow> finder \<Rightarrow> finder" where
  "add_dmv_data df self =
     (if df_empty df then logger WARNING ''No DMV data to add'' self
      else
        let self = logger INFO (''Adding '' @ str_nat (len df) @ '' DMV records'') self
        in self\<lparr>prospects := pd_concat (prospects self) df\<rparr>)"

subsection \<open>Filtering\<close>

datatype error = KeyError "string set" | OSError string

text \<open>\<^verbatim>\<open>df.duplicated(subset, keep='first')\<close>: a row is a duplicate when an earlier row
  has the same values in the columns \<open>labels\<close> (the \<^verbatim>\<open>subset\<close> argument); missing values count as equal to
  each other. A label that is not a column raises \<^verbatim>\<open>KeyError\<close>, unless the
  frame is empty.\<close>

fun dup_mask :: "'k list \<Rightarrow> 'k list \<Rightarrow> bool list" where
  "dup_mask seen [] = []"
| "dup_mask seen (k # ks) = (k \<in> set seen) # dup_mask (k # seen) ks"

definition duplicated :: "string list \<Rightarrow> dataframe \<Rightarrow> error + bool list" where
  "duplicated labels df =
     (if df_empty df then Inr []
      else if set labels \<subseteq> set (columns df)
      then Inr (dup_mask [] (map (\<lambda>r. map r labels) (rows df)))
      else Inl (KeyError (set labels - set (columns df))))"

text \<open>\<^verbatim>\<open>df.drop_duplicates(subset, keep='first')\<close>: an empty frame is returned as it is;
  otherwise the rows that are not duplicates are kept, in their order.\<close>

definition drop_duplicates :: "string list \<Rightarrow> dataframe \<Rightarrow> error + dataframe" where
  "drop_duplicates labels df =
     (if df_empty df then Inr df
      else case duplicated labels df of
        Inl e \<Rightarrow> Inl e
      | Inr dup \<Rightarrow> Inr (df\<lparr>rows := map snd (filter (\<lambda>(d, r). \<not> d) (zip dup (rows df)))\<rparr>))"

text \<open>\<^verbatim>\<open>filter_prospects(criteria)\<close>. The criteria are a dictionary or \<^verbatim>\<open>None\<close>; only
  the presence of the key \<^verbatim>\<open>min_records\<close> is looked at. The result is the error raised,
  or the frame returned with the finder (whose log has grown).\<close>

definition filter_prospects ::
  "(string \<rightharpoonup> 'v) option \<Rightarrow> finder \<Rightarrow> error + (dataframe \<times> finder)" where
  "filter_prospects criteria self =
     (let filtered = prospects self in
      case criteria of
        None \<Rightarrow> Inr (filtered, self)
      | Some d \<Rightarrow>
          (case (if ''min_records'' \<in> dom d
                 then drop_duplicates [''name'', ''phone''] filtered
                 else Inr filtered) of
             Inl e \<Rightarrow> Inl e
           | Inr filtered \<Rightarrow>
               Inr (filtered,
                    logger INFO (''Filtered to '' @ str_nat (len filtered) @ '' prospects'') self)))"

subsection \<open>Exporting\<close>

text \<open>\<^verbatim>\<open>os.path.join(a, b)\<close> on POSIX.\<close>

definition os_path_join :: "string \<Rightarrow> string \<Rightarrow> string" where
  "os_path_join a b =
     (if prefix ''/'' b then b
      else if a = [] \<or> suffix ''/'' a then a @ b
      else a @ ''/'' @ b)"

text \<open>Writing the store to a file. Whether the file system accepts a write is not the
  program's to decide: \<open>writable\<close> says for which paths it does. A refused write
  raises out of the method.\<close>

definition write_file ::
  "(string \<Rightarrow> bool) \<Rightarrow> file_format \<Rightarrow> string \<Rightarrow> finder \<Rightarrow> error + finder" where
  "write_file writable fmt path self =
     (if writable path
      then Inr (logger INFO (''Exported to '' @ path)
                 (self\<lparr>written := written self @ [(path, fmt, prospects self)]\<rparr>))
      else Inl (OSError path))"

text \<open>\<^verbatim>\<open>export_prospects(filename, format)\<close>. \<open>timestamp\<close> is the current time as
  \<^verbatim>\<open>strftime('%Y%m%d_%H%M%S')\<close> prints it. The result is the error raised, or the value
  returned (\<^verbatim>\<open>None\<close> or the path) with the finder after the call.\<close>

definition export_prospects ::
  "(string \<Rightarrow> bool) \<Rightarrow> string \<Rightarrow> string option \<Rightarrow> string \<Rightarrow> finder
     \<Rightarrow> error + (string option \<times> finder)" where
  "export_prospects writable timestamp filename format self =
     (if df_empty (prospects self)
      then Inr (None, logger WARNING ''No prospects to export'' self)
      else
        let filename = (case filename of
                          None \<Rightarrow> ''vehicle_buyer_prospects_'' @ timestamp
                        | Some f \<Rightarrow> f);
            filepath = os_path_join (output_directory self) filename;
            outcome =
              (if format = ''csv'' then write_file writable CSV (filepath @ ''.csv'') self
               else if format = ''excel''
               then write_file writable XLSX (filepath @ ''.xlsx'') self
               else if format = ''json''
               then write_file writable JSON (filepath @ ''.json'') self
               else Inr self)
        in case outcome of Inl e \<Rightarrow> Inl e | Inr self \<Rightarrow> Inr (Some filepath, self))"

subsection \<open>Reporting\<close>

text \<open>\<^verbatim>\<open>Series.value_counts().to_dict()\<close>: each value of the series that is not missing,
  with the number of times it occurs. (The dictionary is read as a mapping; the order
  of its keys is not modelled.)\<close>

definition value_counts :: "cell list \<Rightarrow> (cell \<rightharpoonup> nat)" where
  "value_counts xs = (\<lambda>v. if v \<in> set xs \<and> notna v then Some (count_list xs v) else None)"

text \<open>The report is a dictionary; a key the code does not set is \<open>None\<close> here.\<close>

record report =
  total_prospects :: nat
  timestamp :: string
  by_source :: "(cell \<rightharpoonup> nat) option"
  by_type :: "(cell \<rightharpoonup> nat) option"
  with_phone :: "nat option"
  with_address :: "nat option"

text \<open>\<^verbatim>\<open>generate_report()\<close>. \<open>now\<close> is the current time as \<^verbatim>\<open>isoformat()\<close> prints it.\<close>

definition generate_report :: "string \<Rightarrow> finder \<Rightarrow> report" where
  "generate_report now self =
     (let report = \<lparr>total_prospects = len (prospects self), timestamp = now,
                     by_source = None, by_type = None, with_phone = None, with_address = None\<rparr>
      in
        if df_empty (prospects self) then report
        else
          let report = (if ''source'' \<in> set (columns (prospects self))
                        then report\<lparr>by_source :=
                               Some (value_counts (series (prospects self) ''source''))\<rparr>
                        else report);
              report = (if ''prospect_type'' \<in> set (columns (prospects self))
                        then report\<lparr>by_type :=
                               Some (value_counts (series (prospects self) ''prospect_type''))\<rparr>
                        else report);
              report = report\<lparr>with_phone :=
                         Some (if ''phone'' \<in> set (columns (prospects self))
                               then length (filter notna (series (prospects self) ''phone''))
                               else 0)\<rparr>;
              report = report\<lparr>with_address :=
                         Some (if ''address'' \<in> set (columns (prospects self))
                               then length (filter notna (series (prospects self) ''address''))
                               else 0)\<rparr>
          in report)"

section \<open>Notions used to state the properties\<close>

text \<open>The score a row carries.\<close>

definition score_of :: "row \<Rightarrow> int" where
  "score_of r = int_of (r ''score'')"

text \<open>The frame with every row given its score, before ranking: what \<^verbatim>\<open>score_prospects\<close>
  holds just before \<^verbatim>\<open>sort_values\<close>.\<close>

definition scored :: "dataframe \<Rightarrow> dataframe" where
  "scored df =
     df\<lparr>columns := (if ''score'' \<in> set (columns df) then columns df else columns df @ [''score'']),
        rows := map (\<lambda>r. r(''score'' := Num (spec_score df r))) (rows df)\<rparr>"

text \<open>Keeping, of the rows with the same key, the first one met; \<open>seen\<close> are the keys
  met so far.\<close>

fun keep_first :: "('a \<Rightarrow> 'k) \<Rightarrow> 'k list \<Rightarrow> 'a list \<Rightarrow> 'a list" where
  "keep_first key seen [] = []"
| "keep_first key seen (x # xs) =
     (if key x \<in> set seen then keep_first key (key x # seen) xs
      else x # keep_first key (key x # seen) xs)"

text \<open>The (name, phone) pair of a record.\<close>

definition contact :: "row \<Rightarrow> cell list" where
  "contact r = map r [''name'', ''phone'']"

section \<open>Example data\<close>

text \<open>A record written as a Python dictionary: the fields it lists, \<open>NA\<close> elsewhere.\<close>

definition record_of :: "(string \<times> cell) list \<Rightarrow> row" where
  "record_of kvs = (\<lambda>c. case map_of kvs c of Some v \<Rightarrow> v | None \<Rightarrow> NA)"

text \<open>A directory batch of two listings, the second without a phone number.\<close>

definition yp_batch :: dataframe where
  "yp_batch =
     \<lparr>columns = [''name'', ''phone'', ''address'', ''website'', ''source''],
      rows = [record_of [(''name'', Str ''ABC Auto Body Shop''), (''phone'', Str ''555-0100''),
                         (''source'', Str ''YellowPages'')],
              record_of [(''name'', Str ''Sunrise Bakery''), (''source'', Str ''YellowPages'')]]\<rparr>"

text \<open>The batch \<^verbatim>\<open>MockDMVIntegration.find_recent_buyers('Jacksonville,FL')\<close> returns.\<close>

definition mock_dmv_batch :: dataframe where
  "mock_dmv_batch =
     \<lparr>columns = [''owner_name'', ''vehicle_type'', ''registration_date'', ''location'',
                 ''source''],
      rows = [record_of [(''owner_name'', Str ''Sample Business 1''),
                         (''vehicle_type'', Str ''Commercial''),
                         (''registration_date'', Str ''2024-01-15''),
                         (''location'', Str ''Jacksonville,FL''),
                         (''source'', Str ''MOCK_DMV'')],
              record_of [(''owner_name'', Str ''Sample Business 2''),
                         (''vehicle_type'', Str ''Commercial''),
                         (''registration_date'', Str ''2024-02-20''),
                         (''location'', Str ''Jacksonville,FL''),
                         (''source'', Str ''MOCK_DMV'')]]\<rparr>"

text \<open>A registration batch in the common schema: one record with a phone number and an
  address, no website.\<close>

definition dmv_batch :: dataframe where
  "dmv_batch =
     \<lparr>columns = [''name'', ''phone'', ''address'', ''source''],
      rows = [record_of [(''name'', Str ''Sample Business 1''), (''phone'', Str ''555-0199''),
                         (''address'', Str ''9 Elm St''), (''source'', Str ''MOCK_DMV'')]]\<rparr>"

text \<open>A batch with a name for every rule of the classifier, one that matches two rules,
  one that matches none, and a record without a name.\<close>

definition named_batch :: dataframe where
  "named_batch =
     \<lparr>columns = [''name''],
      rows = [record_of [(''name'', Str ''Sunshine MOTORS'')],
              record_of [(''name'', Str ''We Buy Cars'')],
              record_of [(''name'', Str ''Elm Street Collision'')],
              record_of [(''name'', Str ''ABC Auto Body Shop'')],
              record_of [(''name'', Str ''Sunrise Bakery'')],
              record_of []]\<rparr>"

text \<open>Two records that score the same.\<close>

definition tie_batch :: dataframe where
  "tie_batch =
     \<lparr>columns = [''name''],
      rows = [record_of [(''name'', Str ''First Motors'')],
              record_of [(''name'', Str ''Second Motors'')]]\<rparr>"

text \<open>Eighteen records that score the same.\<close>

definition tied_names :: "string list" where
  "tied_names =
     [''Prospect 01'', ''Prospect 02'', ''Prospect 03'', ''Prospect 04'', ''Prospect 05'',
      ''Prospect 06'', ''Prospect 07'', ''Prospect 08'', ''Prospect 09'', ''Prospect 10'',
      ''Prospect 11'', ''Prospect 12'', ''Prospect 13'', ''Prospect 14'', ''Prospect 15'',
      ''Prospect 16'', ''Prospect 17'', ''Prospect 18'']"

definition tied_batch :: dataframe where
  "tied_batch =
     \<lparr>columns = [''name''], rows = map (\<lambda>n. record_of [(''name'', Str n)]) tied_names\<rparr>"

text \<open>A batch whose third record repeats the name and phone of the first.\<close>

definition dup_batch :: dataframe where
  "dup_batch =
     \<lparr>columns = [''name'', ''phone'', ''address''],
      rows = [record_of [(''name'', Str ''Ace Motors''), (''phone'', Str ''555-0101''),
                         (''address'', Str ''1 Main St'')],
              record_of [(''name'', Str ''Best Cars''), (''phone'', Str ''555-0102'')],
              record_of [(''name'', Str ''Ace Motors''), (''phone'', Str ''555-0101''),
                         (''address'', Str ''7 Oak Ave'')]]\<rparr>"

text \<open>Four finders: one fed the directory batch, one fed the directory batch and then the
  registration batch in the common schema, one fed only what the mock registration
  source returns, one fed the batch with a repeated contact.\<close>

definition yp_store :: finder where
  "yp_store = add_yellowpages_data yp_batch (init ''./output'')"

definition mixed_store :: finder where
  "mixed_store = add_dmv_data dmv_batch (add_yellowpages_data yp_batch (init ''./output''))"

definition dmv_store :: finder where
  "dmv_store = add_dmv_data mock_dmv_batch (init ''./output'')"

definition dup_store :: finder where
  "dup_store = add_yellowpages_data dup_batch (init ''./output'')"

section \<open>Properties of the classifier\<close>

lemma map_zip_map2:
  "map (\<lambda>(m, r). h m r) (zip (map f xs) (map g xs)) = map (\<lambda>x. h (f x) (g x)) xs"
  by (induction xs) simp_all

lemma lower_char_fold_case: "lower_char c = fold_case c"
proof -
  have "list_all (\<lambda>c. lower_char c = fold_case c) Enum.enum"
    by code_simp
  then show ?thesis
    by (simp add: list_all_iff enum_UNIV)
qed

lemma lower_fold_case: "lower s = map fold_case s"
  by (simp add: lower_def lower_char_fold_case)

lemma keywords_folded:
  "list_all (\<lambda>k. map fold_case k = k \<and> k \<noteq> []) (concat (map snd rules))"
  by code_simp

lemma keywords_rules:
  "map snd rules = [dealer_keywords, buyer_keywords, shop_keywords]"
  by (simp add: rules_def dealer_keywords_def buyer_keywords_def shop_keywords_def)

lemma str_contains_name_lower:
  assumes "rule \<in> set rules"
  shows "str_contains (snd rule) na (fillna (Str []) (str_lower c)) = matches c rule"
proof -
  have k: "map fold_case k = k \<and> k \<noteq> []" if "k \<in> set (snd rule)" for k
    using keywords_folded assms that by (auto simp: list_all_iff)
  show ?thesis
  proof (cases c)
    case (Str s)
    have "list_ex (\<lambda>k. sublist k (lower s)) (snd rule) = list_ex (occurs_in s) (snd rule)"
      unfolding list_ex_iff occurs_in_def lower_fold_case using k by auto
    with Str show ?thesis by (simp add: matches_def)
  next
    case NA
    have "\<not> list_ex (\<lambda>k. sublist k []) (snd rule)"
      unfolding list_ex_iff using k by auto
    with NA show ?thesis by (simp add: matches_def)
  next
    case (Num n)
    have "\<not> list_ex (\<lambda>k. sublist k []) (snd rule)"
      unfolding list_ex_iff using k by auto
    with Num show ?thesis by (simp add: matches_def)
  qed
qed

lemma str_contains_keywords:
  "str_contains dealer_keywords na (fillna (Str []) (str_lower c)) = matches c (rules ! 0)"
  "str_contains buyer_keywords na (fillna (Str []) (str_lower c)) = matches c (rules ! 1)"
  "str_contains shop_keywords na (fillna (Str []) (str_lower c)) = matches c (rules ! 2)"
proof -
  have r: "rules ! 0 \<in> set rules" "rules ! 1 \<in> set rules" "rules ! 2 \<in> set rules"
    by (simp_all add: rules_def)
  have s: "snd (rules ! 0) = dealer_keywords" "snd (rules ! 1) = buyer_keywords"
    "snd (rules ! 2) = shop_keywords"
    by (simp_all add: rules_def dealer_keywords_def buyer_keywords_def shop_keywords_def)
  show "str_contains dealer_keywords na (fillna (Str []) (str_lower c)) = matches c (rules ! 0)"
    "str_contains buyer_keywords na (fillna (Str []) (str_lower c)) = matches c (rules ! 1)"
    "str_contains shop_keywords na (fillna (Str []) (str_lower c)) = matches c (rules ! 2)"
    using str_contains_name_lower [OF r(1), of na c] str_contains_name_lower [OF r(2), of na c]
      str_contains_name_lower [OF r(3), of na c]
    by (simp_all only: s)
qed

lemma spec_prospect_type_cases:
  "spec_prospect_type c =
     (if matches c (rules ! 2) then ''Body Shop''
      else if matches c (rules ! 1) then ''Vehicle Buyer''
      else if matches c (rules ! 0) then ''Auto Dealer''
      else ''Unknown'')"
  by (simp add: spec_prospect_type_def Let_def rules_def)

lemma matches_NA: "\<not> matches NA rule"
  by (simp add: matches_def)

lemma columns_categorize:
  "columns (categorize_prospects df) =
     (if ''prospect_type'' \<in> set (columns df) then columns df
      else columns df @ [''prospect_type''])"
  by (simp add: categorize_prospects_def Let_def set_column_def loc_assign_def)

lemma rows_categorize:
  "rows (categorize_prospects df) =
     map (\<lambda>r. r(''prospect_type'' := Str (spec_prospect_type (name_of df r)))) (rows df)"
proof (cases "''name'' \<in> set (columns df)")
  case False
  then show ?thesis
    by (simp add: categorize_prospects_def Let_def set_column_def name_of_def
        spec_prospect_type_cases matches_NA)
next
  case True
  then show ?thesis
    by (simp add: categorize_prospects_def Let_def set_column_def loc_assign_def series_def
        map_zip_map2 o_def str_contains_keywords name_of_def spec_prospect_type_cases)
qed

lemma more_categorize: "dataframe.more (categorize_prospects df) = dataframe.more df"
  by (simp add: categorize_prospects_def Let_def set_column_def loc_assign_def)

lemma name_of_categorize:
  "name_of (categorize_prospects df) (r(''prospect_type'' := v)) = name_of df r"
  by (auto simp: name_of_def columns_categorize)

lemma spec_prospect_type_examples:
  "spec_prospect_type (Str ''ABC Auto Body Shop'') = ''Body Shop''"
  "matches (Str ''ABC Auto Body Shop'') (rules ! 0)"
  "spec_prospect_type NA = ''Unknown''"
  "spec_prospect_type (Str []) = ''Unknown''"
  by code_simp+

lemma named_batch_labels:
  "map (\<lambda>r. Str (spec_prospect_type (name_of named_batch r))) (rows named_batch) =
     [Str ''Auto Dealer'', Str ''Vehicle Buyer'', Str ''Body Shop'', Str ''Body Shop'',
      Str ''Unknown'', Str ''Unknown'']"
  by code_simp

text \<open>
  C2. The classifier returns the frame with the column \<^verbatim>\<open>prospect_type\<close> (added as the last
  column when the frame did not have it), keeps every record and touches only its
  \<^verbatim>\<open>prospect_type\<close>, which becomes the label the specification gives for the record's name:
  \<^verbatim>\<open>Unknown\<close> by default, and otherwise the label of the last rule that matches, in the
  order Auto Dealer (auto, car, dealer, motors, automotive), Vehicle Buyer (buyer, cash
  for cars, we buy, wholesale), Body Shop (body shop, collision, repair), a keyword
  matching when it occurs in the name with letter case ignored. A record named
  \<^verbatim>\<open>ABC Auto Body Shop\<close> matches the Auto Dealer rule and is labelled \<^verbatim>\<open>Body Shop\<close>; a
  record whose name is missing or empty is labelled \<^verbatim>\<open>Unknown\<close>.
\<close>

theorem categorize_prospects_last_match_wins:
  "i < length (rows df) \<Longrightarrow>
     columns (categorize_prospects df) =
       (if ''prospect_type'' \<in> set (columns df) then columns df
        else columns df @ [''prospect_type'']) \<and>
     ''prospect_type'' \<in> set (columns (categorize_prospects df)) \<and>
     length (rows (categorize_prospects df)) = length (rows df) \<and>
     rows (categorize_prospects df) ! i =
       (rows df ! i)(''prospect_type'' := Str (spec_prospect_type (name_of df (rows df ! i)))) \<and>
     (name_of df (rows df ! i) = Str ''ABC Auto Body Shop'' \<longrightarrow>
        matches (name_of df (rows df ! i)) (rules ! 0) \<and>
        (rows (categorize_prospects df) ! i) ''prospect_type'' = Str ''Body Shop'') \<and>
     (name_of df (rows df ! i) = NA \<or> name_of df (rows df ! i) = Str [] \<longrightarrow>
        (rows (categorize_prospects df) ! i) ''prospect_type'' = Str ''Unknown'')"
  by (auto simp: rows_categorize columns_categorize spec_prospect_type_examples)

theorem categorize_prospects_last_match_wins_witness:
  "(rows (categorize_prospects yp_batch) ! 0) ''prospect_type'' = Str ''Body Shop'' \<and>
   (rows (categorize_prospects mock_dmv_batch) ! 1) ''prospect_type'' = Str ''Unknown'' \<and>
   columns (categorize_prospects named_batch) = [''name'', ''prospect_type''] \<and>
   map (\<lambda>r. (r ''name'', r ''prospect_type'')) (rows (categorize_prospects named_batch)) =
     [(Str ''Sunshine MOTORS'', Str ''Auto Dealer''),
      (Str ''We Buy Cars'', Str ''Vehicle Buyer''),
      (Str ''Elm Street Collision'', Str ''Body Shop''),
      (Str ''ABC Auto Body Shop'', Str ''Body Shop''),
      (Str ''Sunrise Bakery'', Str ''Unknown''),
      (NA, Str ''Unknown'')]"
proof -
  have a: "0 < length (rows yp_batch)"
    and b: "name_of yp_batch (rows yp_batch ! 0) = Str ''ABC Auto Body Shop''"
    by (simp_all add: yp_batch_def name_of_def record_of_def)
  have c: "1 < length (rows mock_dmv_batch)"
    and d: "name_of mock_dmv_batch (rows mock_dmv_batch ! 1) = NA"
    by (simp_all add: mock_dmv_batch_def name_of_def)
  have n: "length (rows named_batch) = 6"
    and cn: "columns named_batch = [''name'']"
    and nn: "map (\<lambda>r. r ''name'') (rows named_batch) =
               [Str ''Sunshine MOTORS'', Str ''We Buy Cars'', Str ''Elm Street Collision'',
                Str ''ABC Auto Body Shop'', Str ''Sunrise Bakery'', NA]"
    by (simp_all add: named_batch_def record_of_def)
  have "\<forall>i<6. rows (categorize_prospects named_batch) ! i =
          (rows named_batch ! i)(''prospect_type'' :=
             Str (spec_prospect_type (name_of named_batch (rows named_batch ! i))))"
    using categorize_prospects_last_match_wins [of _ named_batch] by (simp add: n)
  moreover have "length (rows (categorize_prospects named_batch)) = 6"
    using categorize_prospects_last_match_wins [of 0 named_batch] by (simp add: n)
  ultimately have "rows (categorize_prospects named_batch) =
      map (\<lambda>r. r(''prospect_type'' := Str (spec_prospect_type (name_of named_batch r))))
        (rows named_batch)"
    by (simp add: list_eq_iff_nth_eq n)
  then have e: "map (\<lambda>r. (r ''name'', r ''prospect_type'')) (rows (categorize_prospects named_batch)) =
      zip (map (\<lambda>r. r ''name'') (rows named_batch))
        (map (\<lambda>r. Str (spec_prospect_type (name_of named_batch r))) (rows named_batch))"
    by (simp add: zip_map_map o_def zip_same_conv_map)
  have f: "columns (categorize_prospects named_batch) = [''name'', ''prospect_type'']"
    using categorize_prospects_last_match_wins [of 0 named_batch] by (simp add: n cn)
  from categorize_prospects_last_match_wins [OF a] categorize_prospects_last_match_wins [OF c]
    b d
  have "(rows (categorize_prospects yp_batch) ! 0) ''prospect_type'' = Str ''Body Shop''"
    "(rows (categorize_prospects mock_dmv_batch) ! 1) ''prospect_type'' = Str ''Unknown''"
    by (simp_all add: spec_prospect_type_examples)
  then show ?thesis
    by (simp add: e f nn named_batch_labels)
qed

text \<open>
  C9. The classifier is idempotent: classifying a classified frame gives the same frame
  (the same columns, the same records, the same \<^verbatim>\<open>prospect_type\<close> in each).
\<close>

theorem categorize_prospects_idempotent:
  "categorize_prospects (categorize_prospects df) = categorize_prospects df"
  by (rule dataframe.equality)
     (simp_all add: rows_categorize columns_categorize more_categorize o_def name_of_categorize)

section \<open>Properties of merging\<close>

lemma df_empty_DataFrame: "df_empty DataFrame"
  by (simp add: df_empty_def DataFrame_def)

lemma pd_concat_DataFrame: "pd_concat DataFrame b = b"
  by (simp add: pd_concat_def DataFrame_def)

lemma prospects_add:
  "prospects (add_yellowpages_data b self) =
     (if df_empty b then prospects self else pd_concat (prospects self) b)"
  "prospects (add_dmv_data b self) =
     (if df_empty b then prospects self else pd_concat (prospects self) b)"
  by (simp_all add: add_yellowpages_data_def add_dmv_data_def logger_def Let_def)

lemma unchanged_add:
  "output_directory (add_yellowpages_data b self) = output_directory self"
  "written (add_yellowpages_data b self) = written self"
  "output_directory (add_dmv_data b self) = output_directory self"
  "written (add_dmv_data b self) = written self"
  by (simp_all add: add_yellowpages_data_def add_dmv_data_def logger_def Let_def)

lemma logged_add:
  "logged (add_yellowpages_data b self) = logged self @
     [if df_empty b then (WARNING, ''No Yellow Pages data to add'')
      else (INFO, ''Adding '' @ str_nat (len b) @ '' Yellow Pages records'')]"
  "logged (add_dmv_data b self) = logged self @
     [if df_empty b then (WARNING, ''No DMV data to add'')
      else (INFO, ''Adding '' @ str_nat (len b) @ '' DMV records'')]"
  by (simp_all add: add_yellowpages_data_def add_dmv_data_def logger_def Let_def)

text \<open>C5. Merging appends. Whichever of the two entry points is used for each step:
  from a fresh finder, merging a non-empty batch \<open>b1\<close> and then a non-empty batch \<open>b2\<close>
  gives a store that is not empty, with the records of \<open>b1\<close> in their order followed by
  those of \<open>b2\<close> in theirs, \<open>len b1 + len b2\<close> records, under the columns of \<open>b1\<close>
  followed by the columns only \<open>b2\<close> has; more generally a non-empty batch is appended
  in this way to whatever the store holds; and merging an empty batch raises nothing and
  leaves the store, the output directory and the written files as they were, adding one
  warning to the log.\<close>

theorem merge_appends_in_order:
  assumes "add1 \<in> {add_yellowpages_data, add_dmv_data}"
    and "add2 \<in> {add_yellowpages_data, add_dmv_data}"
  shows "(\<not> df_empty b1 \<and> \<not> df_empty b2 \<longrightarrow>
            rows (prospects (add2 b2 (add1 b1 (init dir)))) = rows b1 @ rows b2 \<and>
            len (prospects (add2 b2 (add1 b1 (init dir)))) = len b1 + len b2 \<and>
            columns (prospects (add2 b2 (add1 b1 (init dir)))) =
              columns b1 @ filter (\<lambda>c. c \<notin> set (columns b1)) (columns b2) \<and>
            set (columns (prospects (add2 b2 (add1 b1 (init dir))))) =
              set (columns b1) \<union> set (columns b2) \<and>
            \<not> df_empty (prospects (add2 b2 (add1 b1 (init dir))))) \<and>
         (\<not> df_empty b1 \<longrightarrow>
            rows (prospects (add1 b1 self)) = rows (prospects self) @ rows b1 \<and>
            len (prospects (add1 b1 self)) = len (prospects self) + len b1 \<and>
            columns (prospects (add1 b1 self)) =
              columns (prospects self) @
              filter (\<lambda>c. c \<notin> set (columns (prospects self))) (columns b1) \<and>
            set (columns (prospects (add1 b1 self))) =
              set (columns (prospects self)) \<union> set (columns b1) \<and>
            \<not> df_empty (prospects (add1 b1 self))) \<and>
         (df_empty b1 \<longrightarrow>
            prospects (add1 b1 self) = prospects self \<and>
            output_directory (add1 b1 self) = output_directory self \<and>
            written (add1 b1 self) = written self \<and>
            (\<exists>msg. logged (add1 b1 self) = logged self @ [(WARNING, msg)]))"
  using assms
  by (auto simp: prospects_add unchanged_add logged_add pd_concat_def len_def init_def
      DataFrame_def df_empty_def)

theorem merge_appends_in_order_witness:
  "columns (prospects (add_dmv_data mock_dmv_batch
      (add_yellowpages_data yp_batch (init ''./output'')))) =
     [''name'', ''phone'', ''address'', ''website'', ''source'',
      ''owner_name'', ''vehicle_type'', ''registration_date'', ''location''] \<and>
   map (\<lambda>r. (r ''name'', r ''owner_name'', r ''source''))
     (rows (prospects (add_dmv_data mock_dmv_batch
        (add_yellowpages_data yp_batch (init ''./output''))))) =
     [(Str ''ABC Auto Body Shop'', NA, Str ''YellowPages''),
      (Str ''Sunrise Bakery'', NA, Str ''YellowPages''),
      (NA, Str ''Sample Business 1'', Str ''MOCK_DMV''),
      (NA, Str ''Sample Business 2'', Str ''MOCK_DMV'')] \<and>
   len (prospects (add_dmv_data mock_dmv_batch
      (add_yellowpages_data yp_batch (init ''./output'')))) = 4 \<and>
   prospects (add_dmv_data DataFrame yp_store) = prospects yp_store"
proof -
  have e1: "\<not> df_empty yp_batch" and e2: "\<not> df_empty mock_dmv_batch"
    by (simp_all add: df_empty_def yp_batch_def mock_dmv_batch_def)
  have m1: "add_yellowpages_data \<in> {add_yellowpages_data, add_dmv_data}"
    and m2: "add_dmv_data \<in> {add_yellowpages_data, add_dmv_data}"
    by simp_all
  from merge_appends_in_order [OF m1 m2, of yp_batch mock_dmv_batch "''./output''"] e1 e2
  have "rows (prospects (add_dmv_data mock_dmv_batch
          (add_yellowpages_data yp_batch (init ''./output'')))) =
        rows yp_batch @ rows mock_dmv_batch"
    and "len (prospects (add_dmv_data mock_dmv_batch
          (add_yellowpages_data yp_batch (init ''./output'')))) = len yp_batch + len mock_dmv_batch"
    and "columns (prospects (add_dmv_data mock_dmv_batch
          (add_yellowpages_data yp_batch (init ''./output'')))) =
        columns yp_batch @ filter (\<lambda>c. c \<notin> set (columns yp_batch)) (columns mock_dmv_batch)"
    by simp_all
  moreover from merge_appends_in_order [OF m2 m2, of DataFrame _ _ yp_store] df_empty_DataFrame
  have "prospects (add_dmv_data DataFrame yp_store) = prospects yp_store"
    by simp
  ultimately show ?thesis
    by (simp add: yp_batch_def mock_dmv_batch_def record_of_def len_def)
qed

text \<open>C10. The two merge entry points are equivalent: for every finder and every batch,
  \<^verbatim>\<open>add_yellowpages_data\<close> and \<^verbatim>\<open>add_dmv_data\<close> leave the same store (same columns, same
  records, same order), the same output directory and the same written files; they log
  at the same level after the same earlier records, and differ only in the text of the
  message they log.\<close>

theorem merge_entry_points_equivalent:
  "prospects (add_yellowpages_data df self) = prospects (add_dmv_data df self) \<and>
   output_directory (add_yellowpages_data df self) = output_directory (add_dmv_data df self) \<and>
   written (add_yellowpages_data df self) = written (add_dmv_data df self) \<and>
   map fst (logged (add_yellowpages_data df self)) = map fst (logged (add_dmv_data df self)) \<and>
   butlast (logged (add_yellowpages_data df self)) = butlast (logged (add_dmv_data df self)) \<and>
   logged (add_yellowpages_data df self) \<noteq> logged (add_dmv_data df self)"
  by (simp add: prospects_add unchanged_add logged_add)

section \<open>Properties of the scorer\<close>

lemma notna_iff: "notna c \<longleftrightarrow> c \<noteq> NA"
  by (cases c) simp_all

lemma str_contains_DMV:
  "str_contains [''DMV''] False c = (case c of Str s \<Rightarrow> sublist ''DMV'' s | _ \<Rightarrow> False)"
  by (cases c) simp_all

lemma zip_map_same: "zip (map f xs) xs = map (\<lambda>x. (f x, x)) xs"
  by (induction xs) simp_all

lemma loc_add_series:
  "loc_add (map p (series df col)) c k df =
     df\<lparr>rows := map (\<lambda>r. if p (r col) then r(c := cell_add (r c) k) else r) (rows df)\<rparr>"
  by (simp add: loc_add_def series_def zip_map_same o_def)

lemma score_prospects_scored:
  "score_prospects argsort df = sort_values_desc argsort ''score'' (scored df)"
  unfolding score_prospects_def scored_def Let_def
  apply (rule arg_cong[where f="sort_values_desc argsort ''score''"])
  apply (rule dataframe.equality)
  apply (simp_all add: loc_add_series set_column_def o_def
        spec_score_def present_def source_has_DMV_def notna_iff str_contains_DMV)
  done

lemma argsort_in_range:
  assumes "sorting argsort" "j \<in> set (argsort xs)"
  shows "j < length xs"
proof -
  from assms(1) have "mset (argsort xs) = mset [0..<length xs]"
    by (simp add: sorting_def)
  then have "set (argsort xs) = set [0..<length xs]"
    by (rule mset_eq_setD)
  with assms(2) show ?thesis by simp
qed

lemma rev_upt_nth: "j < n \<Longrightarrow> rev [0..<n] ! j = n - Suc j"
  by (simp add: rev_nth)

lemma nargsort_desc_mset:
  assumes "sorting argsort"
  shows "mset (nargsort_desc argsort ks) = mset [0..<length ks]"
proof -
  let ?n = "length ks"
  have "mset (map (\<lambda>j. rev [0..<?n] ! j) (argsort (rev ks))) =
        image_mset (\<lambda>j. rev [0..<?n] ! j) (mset [0..<length (rev ks)])"
    using assms by (simp add: sorting_def)
  also have "\<dots> = mset (map (\<lambda>j. rev [0..<?n] ! j) [0..<length (rev [0..<?n])])"
    by simp
  also have "\<dots> = mset (rev [0..<?n])"
    by (simp only: map_nth)
  finally show ?thesis
    by (simp add: nargsort_desc_def Let_def)
qed

lemma nargsort_desc_keys:
  assumes "sorting argsort"
  shows "map (\<lambda>i. ks ! i) (nargsort_desc argsort ks) =
         rev (map (\<lambda>j. rev ks ! j) (argsort (rev ks)))"
proof -
  have "ks ! (rev [0..<length ks] ! j) = rev ks ! j" if "j \<in> set (argsort (rev ks))" for j
  proof -
    from argsort_in_range[OF assms that] have "j < length ks" by simp
    then show ?thesis by (simp add: rev_nth)
  qed
  then show ?thesis
    by (simp add: nargsort_desc_def Let_def rev_map o_def cong: map_cong)
qed

lemma nargsort_desc_sorted:
  assumes "sorting argsort"
  shows "sorted_wrt (\<ge>) (map (\<lambda>i. ks ! i) (nargsort_desc argsort ks))"
proof -
  from assms have "sorted (map (\<lambda>j. rev ks ! j) (argsort (rev ks)))"
    by (simp add: sorting_def)
  then show ?thesis
    by (simp add: nargsort_desc_keys[OF assms] sorted_wrt_rev)
qed

lemma nargsort_desc_stable:
  assumes "sorting argsort" "stable argsort"
  shows "filter (\<lambda>i. ks ! i = k) (nargsort_desc argsort ks) = filter (\<lambda>i. ks ! i = k) [0..<length ks]"
proof -
  let ?n = "length ks"
  let ?phi = "\<lambda>j. rev [0..<?n] ! j"
  let ?a = "argsort (rev ks)"
  have key: "\<And>j. j < ?n \<Longrightarrow> ks ! (?phi j) = rev ks ! j"
    by (simp add: rev_nth)
  have "filter (\<lambda>i. ks ! i = k) (map ?phi ?a) = map ?phi (filter (\<lambda>j. ks ! (?phi j) = k) ?a)"
    by (simp add: filter_map o_def)
  also have "filter (\<lambda>j. ks ! (?phi j) = k) ?a = filter (\<lambda>j. rev ks ! j = k) ?a"
    using argsort_in_range[OF assms(1), of _ "rev ks"] key by (intro filter_cong) auto
  also have "\<dots> = filter (\<lambda>j. rev ks ! j = k) [0..<?n]"
    using assms(2) by (simp add: stable_def)
  also have "\<dots> = filter (\<lambda>j. ks ! (?phi j) = k) [0..<?n]"
    using key by (intro filter_cong) auto
  also have "map ?phi \<dots> = filter (\<lambda>i. ks ! i = k) (map ?phi [0..<length (rev [0..<?n])])"
    by (simp add: filter_map o_def)
  also have "\<dots> = filter (\<lambda>i. ks ! i = k) (rev [0..<?n])"
    by (simp only: map_nth)
  finally have inner: "filter (\<lambda>i. ks ! i = k) (map ?phi ?a) = filter (\<lambda>i. ks ! i = k) (rev [0..<?n])" .
  have "filter (\<lambda>i. ks ! i = k) (rev (map ?phi ?a)) = rev (filter (\<lambda>i. ks ! i = k) (map ?phi ?a))"
    by (simp only: rev_filter)
  also have "\<dots> = rev (filter (\<lambda>i. ks ! i = k) (rev [0..<?n]))"
    by (simp only: inner)
  also have "\<dots> = filter (\<lambda>i. ks ! i = k) [0..<?n]"
    by (simp only: rev_filter rev_rev_ident)
  finally show ?thesis
    by (simp only: nargsort_desc_def Let_def)
qed

lemma sort_values_desc_rows:
  "rows (sort_values_desc argsort c df) =
     map (\<lambda>i. rows df ! i) (nargsort_desc argsort (map (\<lambda>r. int_of (r c)) (rows df)))"
  by (simp add: sort_values_desc_def Let_def series_def o_def)

lemma sort_values_desc_columns:
  "columns (sort_values_desc argsort c df) = columns df"
  by (simp add: sort_values_desc_def Let_def)

lemma sort_values_desc_mset:
  assumes "sorting argsort"
  shows "mset (rows (sort_values_desc argsort c df)) = mset (rows df)"
proof -
  let ?ks = "map (\<lambda>r. int_of (r c)) (rows df)"
  have "mset (map (\<lambda>i. rows df ! i) (nargsort_desc argsort ?ks)) =
        image_mset (\<lambda>i. rows df ! i) (mset [0..<length (rows df)])"
    using nargsort_desc_mset[OF assms, of ?ks] by simp
  also have "\<dots> = mset (map (\<lambda>i. rows df ! i) [0..<length (rows df)])"
    by simp
  also have "\<dots> = mset (rows df)"
    by (simp only: map_nth)
  finally show ?thesis
    by (simp only: sort_values_desc_rows)
qed

lemma nargsort_desc_in_range:
  assumes "sorting argsort" "i \<in> set (nargsort_desc argsort ks)"
  shows "i < length ks"
proof -
  have "set (nargsort_desc argsort ks) = set [0..<length ks]"
    by (rule mset_eq_setD) (rule nargsort_desc_mset[OF assms(1)])
  with assms(2) show ?thesis by simp
qed

lemma sort_values_desc_keys:
  assumes "sorting argsort"
  shows "map (\<lambda>r. int_of (r c)) (rows (sort_values_desc argsort c df)) =
         map (\<lambda>i. map (\<lambda>r. int_of (r c)) (rows df) ! i)
             (nargsort_desc argsort (map (\<lambda>r. int_of (r c)) (rows df)))"
  using nargsort_desc_in_range[OF assms, of _ "map (\<lambda>r. int_of (r c)) (rows df)"]
  by (simp add: sort_values_desc_rows o_def cong: map_cong)

lemma sort_values_desc_sorted:
  assumes "sorting argsort"
  shows "sorted_wrt (\<ge>) (map (\<lambda>r. int_of (r c)) (rows (sort_values_desc argsort c df)))"
  by (simp only: sort_values_desc_keys[OF assms] nargsort_desc_sorted[OF assms])

lemma sort_values_desc_stable:
  assumes "sorting argsort" "stable argsort"
  shows "filter (\<lambda>r. int_of (r c) = k) (rows (sort_values_desc argsort c df)) =
         filter (\<lambda>r. int_of (r c) = k) (rows df)"
proof -
  let ?ks = "map (\<lambda>r. int_of (r c)) (rows df)"
  let ?idx = "nargsort_desc argsort ?ks"
  have "filter (\<lambda>r. int_of (r c) = k) (map (\<lambda>i. rows df ! i) ?idx) =
        map (\<lambda>i. rows df ! i) (filter (\<lambda>i. int_of ((rows df ! i) c) = k) ?idx)"
    by (simp add: filter_map o_def)
  also have "filter (\<lambda>i. int_of ((rows df ! i) c) = k) ?idx = filter (\<lambda>i. ?ks ! i = k) ?idx"
    using nargsort_desc_in_range[OF assms(1), of _ ?ks] by (intro filter_cong) auto
  also have "\<dots> = filter (\<lambda>i. ?ks ! i = k) [0..<length ?ks]"
    by (rule nargsort_desc_stable[OF assms])
  also have "\<dots> = filter (\<lambda>i. int_of ((rows df ! i) c) = k) [0..<length (rows df)]"
    by (intro filter_cong) auto
  also have "map (\<lambda>i. rows df ! i) \<dots> =
             filter (\<lambda>r. int_of (r c) = k) (map (\<lambda>i. rows df ! i) [0..<length (rows df)])"
    by (simp add: filter_map o_def)
  also have "\<dots> = filter (\<lambda>r. int_of (r c) = k) (rows df)"
    by (simp only: map_nth)
  finally show ?thesis
    by (simp only: sort_values_desc_rows)
qed

lemma zip_upt_fst: "p \<in> set (zip xs [0..<length xs]) \<Longrightarrow> xs ! snd p = fst p"
  by (cases p) (auto simp: in_set_zip)

lemma sorting_insertion_argsort: "sorting insertion_argsort"
  unfolding sorting_def
proof (intro allI conjI)
  fix xs :: "int list"
  have "mset (map snd (sort_key fst (zip xs [0..<length xs]))) =
        mset (map snd (zip xs [0..<length xs]))"
    by (simp only: mset_map mset_sort)
  also have "map snd (zip xs [0..<length xs]) = [0..<length xs]"
    by simp
  finally show "mset (insertion_argsort xs) = mset [0..<length xs]"
    by (simp only: insertion_argsort_def)
  have "map (\<lambda>i. xs ! i) (insertion_argsort xs) = map fst (sort_key fst (zip xs [0..<length xs]))"
    by (simp add: insertion_argsort_def zip_upt_fst cong: map_cong)
  then show "sorted (map (\<lambda>i. xs ! i) (insertion_argsort xs))"
    by simp
qed

lemma stable_insertion_argsort: "stable insertion_argsort"
  unfolding stable_def
proof (intro allI)
  fix xs :: "int list" and k
  let ?zs = "zip xs [0..<length xs]"
  have "filter (\<lambda>i. xs ! i = k) (insertion_argsort xs) =
        map snd (filter (\<lambda>p. xs ! snd p = k) (sort_key fst ?zs))"
    by (simp add: insertion_argsort_def filter_map o_def)
  also have "filter (\<lambda>p. xs ! snd p = k) (sort_key fst ?zs) =
             filter (\<lambda>p. fst p = k) (sort_key fst ?zs)"
    by (intro filter_cong) (auto simp: zip_upt_fst)
  also have "\<dots> = filter (\<lambda>p. fst p = k) ?zs"
    by (rule sort_key_stable)
  also have "\<dots> = filter (\<lambda>p. xs ! snd p = k) ?zs"
    by (intro filter_cong) (auto simp: zip_upt_fst)
  also have "map snd \<dots> = filter (\<lambda>i. xs ! i = k) (map snd ?zs)"
    by (simp only: filter_map o_def)
  also have "map snd ?zs = [0..<length xs]"
    by simp
  finally show "filter (\<lambda>i. xs ! i = k) (insertion_argsort xs) =
                filter (\<lambda>i. xs ! i = k) [0..<length xs]" .
qed

lemma spec_score_upd: "spec_score df (r(''score'' := v)) = spec_score df r"
  by (simp add: spec_score_def present_def source_has_DMV_def)

lemma spec_score_bounds: "0 \<le> spec_score df r \<and> spec_score df r \<le> 40"
  by (simp add: spec_score_def)

lemma sublist_DMV: "sublist ''DMV'' ''MOCK_DMV''"
  by code_simp

lemma spec_score_example:
  "present df r ''phone'' \<Longrightarrow> \<not> present df r ''website'' \<Longrightarrow> present df r ''address'' \<Longrightarrow>
   ''source'' \<in> set (columns df) \<Longrightarrow> r ''source'' = Str ''MOCK_DMV'' \<Longrightarrow> spec_score df r = 35"
  by (simp add: spec_score_def source_has_DMV_def sublist_DMV)

lemma rows_score_prospects_mset:
  "sorting argsort \<Longrightarrow>
     mset (rows (score_prospects argsort df)) =
     mset (map (\<lambda>r. r(''score'' := Num (spec_score df r))) (rows df))"
  by (simp only: score_prospects_scored sort_values_desc_mset) (simp add: scored_def)

text \<open>C1. The score is the sum of independent contributions. Whatever sorting algorithm
  \<^verbatim>\<open>sort_values\<close> uses, the rows \<^verbatim>\<open>score_prospects\<close> returns are the rows it was given,
  each with its score set, and the score of every returned row is \<open>spec_score\<close>: 10 for a
  phone that is present, 5 for a website, 5 for an address, 20 for a source that contains
  \<^verbatim>\<open>DMV\<close>, added up. So no score is below 0 or above 40, and a row with a phone, no
  website, an address and the source \<^verbatim>\<open>MOCK_DMV\<close> scores 35.\<close>

theorem score_prospects_additive:
  assumes "sorting argsort"
  shows "mset (rows (score_prospects argsort df)) =
           mset (map (\<lambda>r. r(''score'' := Num (spec_score df r))) (rows df)) \<and>
         (\<forall>r \<in> set (rows (score_prospects argsort df)).
            r ''score'' = Num (spec_score df r) \<and>
            0 \<le> spec_score df r \<and> spec_score df r \<le> 40 \<and>
            (present df r ''phone'' \<and> \<not> present df r ''website'' \<and> present df r ''address'' \<and>
             ''source'' \<in> set (columns df) \<and> r ''source'' = Str ''MOCK_DMV'' \<longrightarrow>
               r ''score'' = Num 35))"
proof (intro conjI ballI)
  show m: "mset (rows (score_prospects argsort df)) =
           mset (map (\<lambda>r. r(''score'' := Num (spec_score df r))) (rows df))"
    by (rule rows_score_prospects_mset[OF assms])
  fix r assume "r \<in> set (rows (score_prospects argsort df))"
  then have "r \<in> set (map (\<lambda>r. r(''score'' := Num (spec_score df r))) (rows df))"
    using mset_eq_setD[OF m] by simp
  then show s: "r ''score'' = Num (spec_score df r)"
    by (auto simp: spec_score_upd)
  show "0 \<le> spec_score df r" "spec_score df r \<le> 40"
    by (simp_all add: spec_score_bounds)
  show "present df r ''phone'' \<and> \<not> present df r ''website'' \<and> present df r ''address'' \<and>
        ''source'' \<in> set (columns df) \<and> r ''source'' = Str ''MOCK_DMV'' \<longrightarrow> r ''score'' = Num 35"
    using s by (auto simp: spec_score_example)
qed

lemma dmv_batch_scored:
  "map (\<lambda>r. (r ''name'', r ''score'')) (rows (score_prospects insertion_argsort dmv_batch)) =
     [(Str ''Sample Business 1'', Num 35)]"
  by code_simp

theorem score_prospects_additive_witness:
  "sorting insertion_argsort \<and>
   list_all (\<lambda>r. r ''score'' = Num (spec_score dmv_batch r) \<and> spec_score dmv_batch r \<le> 40)
     (rows (score_prospects insertion_argsort dmv_batch)) \<and>
   map (\<lambda>r. (r ''name'', r ''score'')) (rows (score_prospects insertion_argsort dmv_batch)) =
     [(Str ''Sample Business 1'', Num 35)]"
proof -
  note t = score_prospects_additive [OF sorting_insertion_argsort, of dmv_batch]
  from t have "\<forall>r \<in> set (rows (score_prospects insertion_argsort dmv_batch)).
                 r ''score'' = Num (spec_score dmv_batch r) \<and> spec_score dmv_batch r \<le> 40"
    by blast
  then have "list_all (\<lambda>r. r ''score'' = Num (spec_score dmv_batch r) \<and> spec_score dmv_batch r \<le> 40)
               (rows (score_prospects insertion_argsort dmv_batch))"
    by (simp only: list_all_iff)
  then show ?thesis
    by (intro conjI sorting_insertion_argsort dmv_batch_scored)
qed

lemma tie_batch_scored:
  "map (\<lambda>r. (r ''name'', r ''score'')) (rows (scored tie_batch)) =
     [(Str ''First Motors'', Num 0), (Str ''Second Motors'', Num 0)]"
  by code_simp

lemma tie_batch_kept:
  "map (\<lambda>r. (r ''name'', r ''score'')) (rows (score_prospects insertion_argsort tie_batch)) =
     [(Str ''First Motors'', Num 0), (Str ''Second Motors'', Num 0)]"
  by code_simp

lemma mixed_ranked:
  "map (\<lambda>r. (r ''name'', r ''score''))
     (rows (score_prospects insertion_argsort (prospects mixed_store))) =
     [(Str ''Sample Business 1'', Num 35), (Str ''ABC Auto Body Shop'', Num 10),
      (Str ''Sunrise Bakery'', Num 0)]"
  by code_simp

text \<open>C3. Ranking. \<^verbatim>\<open>sort_values('score', ascending=False)\<close> is called without
  \<^verbatim>\<open>kind\<close>, so pandas sorts with its default algorithm, quicksort, which promises no order
  among equal keys. For every algorithm that sorts, the rows returned are the scored rows
  rearranged, by score descending, with the columns of the scored frame; the rows with
  the same score keep the order they had before sorting when the algorithm is stable.\<close>

theorem score_prospects_sorted_descending:
  assumes "sorting argsort"
  shows "sorted_wrt (\<ge>) (map score_of (rows (score_prospects argsort df))) \<and>
         mset (rows (score_prospects argsort df)) = mset (rows (scored df)) \<and>
         columns (score_prospects argsort df) = columns (scored df) \<and>
         (stable argsort \<longrightarrow>
            (\<forall>k. filter (\<lambda>r. score_of r = k) (rows (score_prospects argsort df)) =
                 filter (\<lambda>r. score_of r = k) (rows (scored df))))"
  unfolding score_of_def score_prospects_scored
  using sort_values_desc_sorted[OF assms] sort_values_desc_mset[OF assms]
    sort_values_desc_stable[OF assms]
  by (simp add: sort_values_desc_columns)

theorem score_prospects_sorted_descending_witness:
  "sorting insertion_argsort \<and> stable insertion_argsort \<and>
   sorted_wrt (\<ge>) (map score_of (rows (score_prospects insertion_argsort (prospects mixed_store)))) \<and>
   map (\<lambda>r. (r ''name'', r ''score''))
     (rows (score_prospects insertion_argsort (prospects mixed_store))) =
     [(Str ''Sample Business 1'', Num 35), (Str ''ABC Auto Body Shop'', Num 10),
      (Str ''Sunrise Bakery'', Num 0)] \<and>
   filter (\<lambda>r. score_of r = 0) (rows (score_prospects insertion_argsort tie_batch)) =
     filter (\<lambda>r. score_of r = 0) (rows (scored tie_batch))"
proof -
  note t1 = score_prospects_sorted_descending [OF sorting_insertion_argsort, of "prospects mixed_store"]
  note t2 = score_prospects_sorted_descending [OF sorting_insertion_argsort, of tie_batch]
  from t1 have a: "sorted_wrt (\<ge>)
      (map score_of (rows (score_prospects insertion_argsort (prospects mixed_store))))"
    by (rule conjunct1)
  from t2 have "stable insertion_argsort \<longrightarrow>
      (\<forall>k. filter (\<lambda>r. score_of r = k) (rows (score_prospects insertion_argsort tie_batch)) =
            filter (\<lambda>r. score_of r = k) (rows (scored tie_batch)))"
    by (elim conjE)
  with stable_insertion_argsort
  have b: "filter (\<lambda>r. score_of r = 0) (rows (score_prospects insertion_argsort tie_batch)) =
           filter (\<lambda>r. score_of r = 0) (rows (scored tie_batch))"
    by (elim impE allE) assumption
  show ?thesis
    by (intro conjI sorting_insertion_argsort stable_insertion_argsort a b mixed_ranked)
qed

text \<open>With the quicksort of numpy, eighteen records that all score 0 do not come back in
  the order they had: the one partition of the eighteen equal keys swaps the second to
  eighth positions with the sixteenth to tenth, and the two parts are then left as they
  are by the insertion sorts.\<close>

lemma aquicksort_tied:
  "aquicksort (replicate 18 0) =
     Some [0, 15, 14, 13, 12, 11, 10, 9, 8, 7, 6, 5, 4, 3, 2, 1, 16, 17]"
  by code_simp

theorem score_prospects_stable_counterexample:
  "map (\<lambda>r. (r ''name'', r ''score'')) (rows (scored tied_batch)) =
     [(Str ''Prospect 01'', Num 0), (Str ''Prospect 02'', Num 0), (Str ''Prospect 03'', Num 0),
      (Str ''Prospect 04'', Num 0), (Str ''Prospect 05'', Num 0), (Str ''Prospect 06'', Num 0),
      (Str ''Prospect 07'', Num 0), (Str ''Prospect 08'', Num 0), (Str ''Prospect 09'', Num 0),
      (Str ''Prospect 10'', Num 0), (Str ''Prospect 11'', Num 0), (Str ''Prospect 12'', Num 0),
      (Str ''Prospect 13'', Num 0), (Str ''Prospect 14'', Num 0), (Str ''Prospect 15'', Num 0),
      (Str ''Prospect 16'', Num 0), (Str ''Prospect 17'', Num 0), (Str ''Prospect 18'', Num 0)] \<and>
   map (\<lambda>r. (r ''name'', r ''score'')) (rows (score_prospects quicksort_argsort tied_batch)) =
     [(Str ''Prospect 01'', Num 0), (Str ''Prospect 02'', Num 0), (Str ''Prospect 17'', Num 0),
      (Str ''Prospect 16'', Num 0), (Str ''Prospect 15'', Num 0), (Str ''Prospect 14'', Num 0),
      (Str ''Prospect 13'', Num 0), (Str ''Prospect 12'', Num 0), (Str ''Prospect 11'', Num 0),
      (Str ''Prospect 10'', Num 0), (Str ''Prospect 09'', Num 0), (Str ''Prospect 08'', Num 0),
      (Str ''Prospect 07'', Num 0), (Str ''Prospect 06'', Num 0), (Str ''Prospect 05'', Num 0),
      (Str ''Prospect 04'', Num 0), (Str ''Prospect 03'', Num 0), (Str ''Prospect 18'', Num 0)]"
  by code_simp

section \<open>Properties of filtering\<close>

lemma dup_mask_keep_first:
  "map snd (filter (\<lambda>(d, r). \<not> d) (zip (dup_mask seen (map key xs)) xs)) = keep_first key seen xs"
  by (induction xs arbitrary: seen) simp_all

lemma keep_first_subseq: "subseq (keep_first key seen xs) xs"
  by (induction xs arbitrary: seen) (auto intro: list_emb_Cons)

lemma keep_first_keys:
  "set (map key (keep_first key seen xs)) = key ` set xs - set seen"
  by (induction xs arbitrary: seen) auto

lemma keep_first_distinct: "distinct (map key (keep_first key seen xs))"
proof (induction xs arbitrary: seen)
  case Nil
  show ?case by simp
next
  case (Cons x xs)
  have "key x \<notin> set (map key (keep_first key (key x # seen) xs))"
    by (simp only: keep_first_keys) simp
  with Cons show ?case by simp
qed

lemma keep_first_find:
  "find (\<lambda>r. key r = k) (keep_first key seen xs) =
     (if k \<in> set seen then None else find (\<lambda>r. key r = k) xs)"
  by (induction xs arbitrary: seen) auto

lemma keep_first_length: "length (keep_first key seen xs) \<le> length xs"
  by (induction xs arbitrary: seen) (auto intro: le_SucI)

lemma drop_duplicates_name_phone:
  assumes "''name'' \<in> set (columns df)" "''phone'' \<in> set (columns df)"
  shows "drop_duplicates [''name'', ''phone''] df = Inr (df\<lparr>rows := keep_first contact [] (rows df)\<rparr>)"
proof (cases "df_empty df")
  case True
  with assms have "rows df = []" by (auto simp: df_empty_def)
  with True show ?thesis by (simp add: drop_duplicates_def)
next
  case False
  have m: "map (\<lambda>r. [r ''name'', r ''phone'']) (rows df) = map contact (rows df)"
    by (simp add: contact_def)
  from False assms
  have "drop_duplicates [''name'', ''phone''] df =
        Inr (df\<lparr>rows := map snd (filter (\<lambda>(d, r). \<not> d)
               (zip (dup_mask [] (map contact (rows df))) (rows df)))\<rparr>)"
    by (simp add: drop_duplicates_def duplicated_def m)
  then show ?thesis
    by (simp only: dup_mask_keep_first)
qed

lemma filter_prospects_none: "filter_prospects None self = Inr (prospects self, self)"
  by (simp add: filter_prospects_def)

text \<open>On a store that has the columns \<^verbatim>\<open>name\<close> and \<^verbatim>\<open>phone\<close>, deduplication keeps the first
  record of every (name, phone) pair, in the original order.\<close>

lemma filter_prospects_min_records:
  assumes "''min_records'' \<in> dom d"
    and "''name'' \<in> set (columns (prospects self))" "''phone'' \<in> set (columns (prospects self))"
  shows "filter_prospects (Some d) self =
           Inr ((prospects self)\<lparr>rows := keep_first contact [] (rows (prospects self))\<rparr>,
                logger INFO (''Filtered to '' @
                  str_nat (length (keep_first contact [] (rows (prospects self)))) @ '' prospects'')
                  self)"
  using assms(1) drop_duplicates_name_phone[OF assms(2,3)]
  by (simp add: filter_prospects_def len_def del: str_nat.simps)

lemma filter_prospects_dup_store:
  "map_sum id (\<lambda>(df, self). map (\<lambda>r. (r ''name'', r ''address'')) (rows df))
     (filter_prospects (Some [''min_records'' \<mapsto> (1::int)]) dup_store) =
   Inr [(Str ''Ace Motors'', Str ''1 Main St''), (Str ''Best Cars'', NA)]"
proof -
  have p: "prospects dup_store = dup_batch"
    by (simp add: dup_store_def prospects_add pd_concat_def init_def DataFrame_def df_empty_def
        dup_batch_def)
  have c: "''name'' \<in> set (columns dup_batch)" "''phone'' \<in> set (columns dup_batch)"
    by (simp_all add: dup_batch_def)
  have k: "map (\<lambda>r. (r ''name'', r ''address'')) (keep_first contact [] (rows dup_batch)) =
           [(Str ''Ace Motors'', Str ''1 Main St''), (Str ''Best Cars'', NA)]"
    by (simp add: dup_batch_def contact_def record_of_def)
  have "''min_records'' \<in> dom [''min_records'' \<mapsto> (1::int)]"
    by simp
  from filter_prospects_min_records [OF this, of dup_store] c k show ?thesis
    by (simp add: p del: str_nat.simps)
qed

lemma dmv_store_prospects: "prospects dmv_store = mock_dmv_batch"
  by (simp add: dmv_store_def prospects_add pd_concat_def init_def DataFrame_def df_empty_def
      mock_dmv_batch_def)

lemma mock_dmv_batch_columns:
  "\<not> df_empty mock_dmv_batch"
  "''name'' \<notin> set (columns mock_dmv_batch)"
  "''phone'' \<notin> set (columns mock_dmv_batch)"
  "{''name'', ''phone''} - set (columns mock_dmv_batch) = {''name'', ''phone''}"
  by (auto simp: mock_dmv_batch_def df_empty_def)

text \<open>C6. Deduplication is claimed for every store. The finder fed only the records of
  the mock registration source has the columns \<^verbatim>\<open>owner_name\<close>, \<^verbatim>\<open>vehicle_type\<close>,
  \<^verbatim>\<open>registration_date\<close>, \<^verbatim>\<open>location\<close> and \<^verbatim>\<open>source\<close>; on it \<^verbatim>\<open>filter_prospects\<close> with
  \<^verbatim>\<open>min_records\<close> among the criteria returns no records: \<^verbatim>\<open>drop_duplicates\<close> raises
  \<^verbatim>\<open>KeyError\<close> for the labels \<^verbatim>\<open>name\<close> and \<^verbatim>\<open>phone\<close>.\<close>

theorem filter_prospects_missing_column_raises:
  "filter_prospects (Some [''min_records'' \<mapsto> (1::int)]) dmv_store =
     Inl (KeyError {''name'', ''phone''})"
  by (simp add: filter_prospects_def drop_duplicates_def duplicated_def dmv_store_prospects
      mock_dmv_batch_columns del: str_nat.simps)

section \<open>Properties of exporting\<close>

lemma yp_store_nonempty: "\<not> df_empty (prospects yp_store)"
  by (simp add: yp_store_def prospects_add df_empty_def yp_batch_def pd_concat_def init_def
      DataFrame_def)

lemma yp_store_output_directory: "output_directory yp_store = ''./output''"
  by (simp add: yp_store_def unchanged_add init_def)

text \<open>C8. Exporting an empty store does nothing, for every format value, file name and
  file system: it raises no error, returns \<^verbatim>\<open>None\<close>, writes no file, leaves the store as it
  is, and logs one warning.\<close>

theorem export_prospects_empty_store:
  assumes "df_empty (prospects self)"
  shows "\<exists>self'. export_prospects writable ts fn fmt self = Inr (None, self') \<and>
           written self' = written self \<and>
           prospects self' = prospects self \<and>
           logged self' = logged self @ [(WARNING, ''No prospects to export'')]"
  using assms by (simp add: export_prospects_def logger_def)

theorem export_prospects_empty_store_witness:
  "df_empty (prospects (init ''./output'')) \<and>
   (\<exists>self'. export_prospects (\<lambda>p. True) ''20240101_120000'' None ''xml'' (init ''./output'') =
              Inr (None, self') \<and>
            written self' = [] \<and>
            logged self' = [(WARNING, ''No prospects to export'')])"
proof -
  have e: "df_empty (prospects (init ''./output''))"
    by (simp add: init_def df_empty_DataFrame)
  from export_prospects_empty_store [OF e, of "\<lambda>p. True" "''20240101_120000''" None "''xml''"]
  obtain self' where
    "export_prospects (\<lambda>p. True) ''20240101_120000'' None ''xml'' (init ''./output'') =
       Inr (None, self')"
    "written self' = written (init ''./output'')"
    "logged self' = logged (init ''./output'') @ [(WARNING, ''No prospects to export'')]"
    by blast
  with e show ?thesis
    by (simp add: init_def)
qed

text \<open>C4. An unrecognized format. The method has a branch for \<^verbatim>\<open>csv\<close>, for \<^verbatim>\<open>excel\<close> and
  for \<^verbatim>\<open>json\<close> and no \<^verbatim>\<open>else\<close>, and nothing in it raises for another value. For every
  non-empty store and every other format value the call raises nothing: it returns the
  path without extension, built from the output directory and the file name, and leaves
  the finder exactly as it was, so no file is written and nothing is logged.\<close>

theorem export_prospects_unrecognized_format:
  assumes "\<not> df_empty (prospects self)"
    and "fmt \<notin> {''csv'', ''excel'', ''json''}"
  shows "export_prospects writable ts fn fmt self =
           Inr (Some (os_path_join (output_directory self)
                        (case fn of None \<Rightarrow> ''vehicle_buyer_prospects_'' @ ts | Some f \<Rightarrow> f)),
                self)"
  using assms by (simp add: export_prospects_def Let_def)

theorem export_prospects_unrecognized_format_witness:
  "\<not> df_empty (prospects yp_store) \<and> ''pdf'' \<notin> {''csv'', ''excel'', ''json''} \<and>
   export_prospects (\<lambda>p. True) ''20240101_120000'' (Some ''leads'') ''pdf'' yp_store =
     Inr (Some ''./output/leads'', yp_store)"
proof -
  have f: "''pdf'' \<notin> {''csv'', ''excel'', ''json''}"
    by simp
  from export_prospects_unrecognized_format [OF yp_store_nonempty f,
      of "\<lambda>p. True" "''20240101_120000''" "Some ''leads''"]
  show ?thesis
    by (simp add: yp_store_nonempty yp_store_output_directory os_path_join_def suffix_to_prefix)
qed

text \<open>The format \<^verbatim>\<open>xml\<close> on a store of two records, with a file system that would refuse
  every write: the call returns a path and raises nothing.\<close>

theorem export_prospects_unrecognized_format_counterexample:
  "\<not> df_empty (prospects yp_store) \<and>
   export_prospects (\<lambda>p. False) ''20240101_120000'' None ''xml'' yp_store =
     Inr (Some ''./output/vehicle_buyer_prospects_20240101_120000'', yp_store)"
  by (simp add: export_prospects_def Let_def yp_store_nonempty yp_store_output_directory
      os_path_join_def suffix_to_prefix)

section \<open>Properties of reporting\<close>

lemma generate_report_empty:
  "df_empty (prospects self) \<Longrightarrow>
     generate_report now self =
       \<lparr>total_prospects = length (rows (prospects self)), timestamp = now,
        by_source = None, by_type = None, with_phone = None, with_address = None\<rparr>"
  by (simp add: generate_report_def len_def)

lemma generate_report_nonempty:
  "\<not> df_empty (prospects self) \<Longrightarrow>
     generate_report now self =
       \<lparr>total_prospects = length (rows (prospects self)), timestamp = now,
        by_source = (if ''source'' \<in> set (columns (prospects self))
                     then Some (value_counts (series (prospects self) ''source'')) else None),
        by_type = (if ''prospect_type'' \<in> set (columns (prospects self))
                   then Some (value_counts (series (prospects self) ''prospect_type''))
                   else None),
        with_phone = Some (if ''phone'' \<in> set (columns (prospects self))
                           then length (filter notna (series (prospects self) ''phone''))
                           else 0),
        with_address = Some (if ''address'' \<in> set (columns (prospects self))
                             then length (filter notna (series (prospects self) ''address''))
                             else 0)\<rparr>"
  by (simp add: generate_report_def len_def Let_def)

lemma value_counts_apply:
  "value_counts xs v = (if v \<in> set xs \<and> v \<noteq> NA then Some (count (mset xs) v) else None)"
  by (simp add: value_counts_def notna_iff count_mset)

lemma value_counts_example:
  assumes "mset xs = {#Str ''YellowPages'', Str ''YellowPages'', Str ''MOCK_DMV''#}"
  shows "value_counts xs = [Str ''YellowPages'' \<mapsto> 2, Str ''MOCK_DMV'' \<mapsto> 1]"
proof
  fix v
  have "set xs = {Str ''YellowPages'', Str ''MOCK_DMV''}"
    using mset_eq_setD[OF assms[unfolded mset.simps[symmetric]]] assms
    by (metis insert_absorb2 set_mset_add_mset_insert set_mset_empty set_mset_mset)
  then show "value_counts xs v = [Str ''YellowPages'' \<mapsto> 2, Str ''MOCK_DMV'' \<mapsto> 1] v"
    by (auto simp: value_counts_apply assms)
qed

lemma mixed_store_prospects: "prospects mixed_store = pd_concat yp_batch dmv_batch"
  by (simp add: mixed_store_def prospects_add pd_concat_DataFrame init_def df_empty_def
      yp_batch_def dmv_batch_def)

text \<open>C7. The report. \<^verbatim>\<open>total_prospects\<close> is the number of records and \<^verbatim>\<open>timestamp\<close> the
  time of the call. The other four entries are set under \<^verbatim>\<open>if not self.prospects.empty\<close>:
  for an empty store the report has none of them. For a non-empty store, \<^verbatim>\<open>by_source\<close>
  and \<^verbatim>\<open>by_type\<close> are there when their column is, and map each value of the column that
  is not missing to the number of records that have it; \<^verbatim>\<open>with_phone\<close> and
  \<^verbatim>\<open>with_address\<close> are the number of values of their column that are not missing, and 0
  when the column is absent. So three records, two from \<^verbatim>\<open>YellowPages\<close> and one from
  \<^verbatim>\<open>MOCK_DMV\<close>, two of them with a phone, give 3, \<^verbatim>\<open>{YellowPages: 2, MOCK_DMV: 1}\<close>
  and 2.\<close>

theorem generate_report_counts:
  "total_prospects (generate_report now self) = length (rows (prospects self)) \<and>
   timestamp (generate_report now self) = now \<and>
   (df_empty (prospects self) \<longrightarrow>
      by_source (generate_report now self) = None \<and>
      by_type (generate_report now self) = None \<and>
      with_phone (generate_report now self) = None \<and>
      with_address (generate_report now self) = None) \<and>
   (\<not> df_empty (prospects self) \<longrightarrow>
      (\<forall>c by_c. (c, by_c) \<in> {(''source'', by_source), (''prospect_type'', by_type)} \<longrightarrow>
         (if c \<in> set (columns (prospects self))
          then \<exists>m. by_c (generate_report now self) = Some m \<and>
                 (\<forall>v. m v = (if v \<in> set (series (prospects self) c) \<and> v \<noteq> NA
                              then Some (length (filter (\<lambda>x. x = v) (series (prospects self) c)))
                              else None))
          else by_c (generate_report now self) = None)) \<and>
      (\<forall>c with_c. (c, with_c) \<in> {(''phone'', with_phone), (''address'', with_address)} \<longrightarrow>
         with_c (generate_report now self) =
           Some (if c \<in> set (columns (prospects self))
                 then length (filter (\<lambda>x. x \<noteq> NA) (series (prospects self) c))
                 else 0)) \<and>
      (length (rows (prospects self)) = 3 \<and>
       ''source'' \<in> set (columns (prospects self)) \<and>
       ''phone'' \<in> set (columns (prospects self)) \<and>
       mset (series (prospects self) ''source'') =
         {#Str ''YellowPages'', Str ''YellowPages'', Str ''MOCK_DMV''#} \<and>
       length (filter (\<lambda>x. x \<noteq> NA) (series (prospects self) ''phone'')) = 2 \<longrightarrow>
         total_prospects (generate_report now self) = 3 \<and>
         by_source (generate_report now self) =
           Some [Str ''YellowPages'' \<mapsto> 2, Str ''MOCK_DMV'' \<mapsto> 1] \<and>
         with_phone (generate_report now self) = Some 2))"
proof (cases "df_empty (prospects self)")
  case True
  then show ?thesis by (simp add: generate_report_empty)
next
  case False
  have nn: "notna = (\<lambda>x. x \<noteq> NA)" by (rule ext) (simp add: notna_iff)
  have cnt: "\<And>xs (v::cell). length (filter (\<lambda>x. x = v) xs) = count (mset xs) v"
    by (simp add: count_mset count_list_eq_length_filter eq_commute)
  from False show ?thesis
    by (simp add: generate_report_nonempty value_counts_apply nn cnt value_counts_example)
qed

theorem generate_report_counts_witness:
  "\<not> df_empty (prospects mixed_store) \<and>
   total_prospects (generate_report ''2024-01-01T12:00:00'' mixed_store) = 3 \<and>
   by_source (generate_report ''2024-01-01T12:00:00'' mixed_store) =
     Some [Str ''YellowPages'' \<mapsto> 2, Str ''MOCK_DMV'' \<mapsto> 1] \<and>
   by_type (generate_report ''2024-01-01T12:00:00'' mixed_store) = None \<and>
   with_phone (generate_report ''2024-01-01T12:00:00'' mixed_store) = Some 2 \<and>
   with_address (generate_report ''2024-01-01T12:00:00'' mixed_store) = Some 1"
proof -
  have e: "\<not> df_empty (prospects mixed_store)"
    by (simp add: mixed_store_prospects pd_concat_def df_empty_def yp_batch_def)
  have c: "set (columns (prospects mixed_store)) =
             {''name'', ''phone'', ''address'', ''website'', ''source''}"
    by (auto simp: mixed_store_prospects pd_concat_def yp_batch_def dmv_batch_def)
  have s: "series (prospects mixed_store) ''source'' =
             [Str ''YellowPages'', Str ''YellowPages'', Str ''MOCK_DMV'']"
    and p: "series (prospects mixed_store) ''phone'' = [Str ''555-0100'', NA, Str ''555-0199'']"
    and a: "series (prospects mixed_store) ''address'' = [NA, NA, Str ''9 Elm St'']"
    and n: "length (rows (prospects mixed_store)) = 3"
    by (simp_all add: mixed_store_prospects pd_concat_def series_def yp_batch_def dmv_batch_def
        record_of_def)
  from generate_report_counts [of "''2024-01-01T12:00:00''" mixed_store] e
  show ?thesis
    by (simp add: c s p a n)
qed

text \<open>The store of a fresh finder is empty and has no \<^verbatim>\<open>phone\<close> column: its report has no
  \<^verbatim>\<open>with_phone\<close> and no \<^verbatim>\<open>with_address\<close>, rather than 0.\<close>

theorem generate_report_empty_store_counterexample:
  "''phone'' \<notin> set (columns (prospects (init ''./output''))) \<and>
   total_prospects (generate_report ''2024-01-01T12:00:00'' (init ''./output'')) = 0 \<and>
   with_phone (generate_report ''2024-01-01T12:00:00'' (init ''./output'')) = None \<and>
   with_address (generate_report ''2024-01-01T12:00:00'' (init ''./output'')) = None"
proof -
  have "df_empty (prospects (init ''./output''))"
    by (simp add: init_def df_empty_DataFrame)
  from generate_report_empty [OF this, of "''2024-01-01T12:00:00''"] show ?thesis
    by (simp add: init_def DataFrame_def)
qed

end
